theory Spec2Isabelle
  imports Complex_Main
begin

section \<open>Data model\<close>

text \<open>
  The storefront's \<^verbatim>\<open>Product\<close> interface (ProductCard.tsx). JavaScript numbers are
  modelled exactly: prices are rationals, stock counts and quantities are integers;
  NaN and rounding are outside the model. An optional field is an \<open>option\<close>, with
  \<open>None\<close> for \<^verbatim>\<open>undefined\<close>; \<^verbatim>\<open>null\<close> is not a value of the interface's types. The
  fields \<^verbatim>\<open>id\<close> and \<^verbatim>\<open>image\<close> are written \<open>id_p\<close> and \<open>image_p\<close>, the plain
  names being constants of HOL. The interface's optional \<^verbatim>\<open>quantity\<close> field is not part
  of the record: every cart entry overwrites it with its own quantity.
\<close>

record Product =
  id_p :: string
  name :: string
  description :: string
  short_description :: "string option"
  price :: rat
  sale_price :: "rat option"
  originalPrice :: "rat option"
  weight :: string
  images :: "string list option"
  image_p :: "string list option"
  hover_image :: "string option"
  stock :: "int option"

text \<open>
  \<^verbatim>\<open>interface CartItem extends Product { quantity: number }\<close> (CartContext.tsx):
  a product snapshot together with the quantity.
\<close>

record CartItem =
  product :: Product
  quantity :: int

type_synonym Cart = "CartItem list"

section \<open>Cart state container (CartContext.tsx)\<close>

text \<open>
  Each operation is the updater passed to \<^verbatim>\<open>setCart\<close>: a function from the previous
  cart to the next one.
\<close>

definition updateProductInCart :: "Product \<Rightarrow> Cart \<Rightarrow> Cart" where
  "updateProductInCart updatedProduct prevCart =
     map (\<lambda>item. if id_p (product item) = id_p updatedProduct
                  then \<lparr>product = updatedProduct, quantity = quantity item\<rparr>
                  else item) prevCart"

text \<open>
  \<^verbatim>\<open>addToCart\<close>; the second component tells whether \<^verbatim>\<open>console.warn\<close> was called.
\<close>

definition addToCart_run :: "Product \<Rightarrow> Cart \<Rightarrow> Cart \<times> bool" where
  "addToCart_run p prevCart =
     (case find (\<lambda>item. id_p (product item) = id_p p) prevCart of
        Some existingItem \<Rightarrow>
          (case stock p of
             Some s \<Rightarrow>
               if quantity existingItem \<ge> s then (prevCart, True)
               else (map (\<lambda>item. if id_p (product item) = id_p p
                                   then item\<lparr>quantity := quantity item + 1\<rparr>
                                   else item) prevCart, False)
           | None \<Rightarrow>
               (map (\<lambda>item. if id_p (product item) = id_p p
                              then item\<lparr>quantity := quantity item + 1\<rparr>
                              else item) prevCart, False))
      | None \<Rightarrow>
          (case stock p of
             Some s \<Rightarrow>
               if s \<le> 0 then (prevCart, True)
               else (prevCart @ [\<lparr>product = p, quantity = 1\<rparr>], False)
           | None \<Rightarrow> (prevCart @ [\<lparr>product = p, quantity = 1\<rparr>], False)))"

definition addToCart :: "Product \<Rightarrow> Cart \<Rightarrow> Cart" where
  "addToCart p prevCart = fst (addToCart_run p prevCart)"

definition removeFromCart :: "string \<Rightarrow> Cart \<Rightarrow> Cart" where
  "removeFromCart productId prevCart =
     filter (\<lambda>item. id_p (product item) \<noteq> productId) prevCart"

definition updateQuantity :: "string \<Rightarrow> int \<Rightarrow> Cart \<Rightarrow> Cart" where
  "updateQuantity productId q prevCart =
     (if q \<le> 0 then removeFromCart productId prevCart
      else map (\<lambda>item.
             if id_p (product item) = productId then
               (case stock (product item) of
                  Some s \<Rightarrow> if q > s then item\<lparr>quantity := s\<rparr>
                            else item\<lparr>quantity := q\<rparr>
                | None \<Rightarrow> item\<lparr>quantity := q\<rparr>)
             else item) prevCart)"

definition clearCart :: "Cart \<Rightarrow> Cart" where
  "clearCart prevCart = []"

definition getTotalItems :: "Cart \<Rightarrow> int" where
  "getTotalItems cart = foldl (\<lambda>total item. total + quantity item) 0 cart"

text \<open>
  The price test \<^verbatim>\<open>item.sale_price && item.sale_price > 0 && item.sale_price < item.price\<close>:
  an undefined or zero sale price is falsy.
\<close>

definition effectivePrice :: "CartItem \<Rightarrow> rat" where
  "effectivePrice item =
     (case sale_price (product item) of
        Some sp \<Rightarrow> if sp \<noteq> 0 \<and> sp > 0 \<and> sp < price (product item) then sp
                   else price (product item)
      | None \<Rightarrow> price (product item))"

definition getTotalPrice :: "Cart \<Rightarrow> rat" where
  "getTotalPrice cart =
     foldl (\<lambda>total item. total + effectivePrice item * of_int (quantity item)) 0 cart"

definition getItemQuantity :: "string \<Rightarrow> Cart \<Rightarrow> int" where
  "getItemQuantity productId cart =
     (case find (\<lambda>item. id_p (product item) = productId) cart of
        Some item \<Rightarrow> quantity item
      | None \<Rightarrow> 0)"

text \<open>
  The total price as the specification words it: the sum over the entries of the sale price
  when \<open>0 < sale price < price\<close>, else the price, times the quantity.
\<close>

definition spec_unit_price :: "CartItem \<Rightarrow> rat" where
  "spec_unit_price item =
     (case sale_price (product item) of
        Some sp \<Rightarrow> if 0 < sp \<and> sp < price (product item) then sp else price (product item)
      | None \<Rightarrow> price (product item))"

definition spec_total_price :: "Cart \<Rightarrow> rat" where
  "spec_total_price cart = (\<Sum>item\<leftarrow>cart. spec_unit_price item * of_int (quantity item))"

section \<open>Sequences of cart operations\<close>

text \<open>
  The three mutating operations the cart offers to its callers and to the realtime
  subscription, and the cart reached from the empty cart by a sequence of them.
\<close>

datatype cart_op = AddItem Product | UpdateQty string int | Reconcile Product

fun apply_cart_op :: "cart_op \<Rightarrow> Cart \<Rightarrow> Cart" where
  "apply_cart_op (AddItem p) c = addToCart p c"
| "apply_cart_op (UpdateQty productId q) c = updateQuantity productId q c"
| "apply_cart_op (Reconcile u) c = updateProductInCart u c"

definition run_cart_ops :: "cart_op list \<Rightarrow> Cart" where
  "run_cart_ops ops = foldl (\<lambda>c op. apply_cart_op op c) [] ops"

text \<open>The invariant of the data model: a known stock bounds the quantity.\<close>

definition within_stock :: "CartItem \<Rightarrow> bool" where
  "within_stock item =
     (case stock (product item) of Some s \<Rightarrow> quantity item \<le> s | None \<Rightarrow> True)"

definition stock_invariant :: "Cart \<Rightarrow> bool" where
  "stock_invariant cart = list_all within_stock cart"

text \<open>
  Side conditions under which an operation keeps the invariant: an added product record
  carries the stock the cart already holds for that id, and a reconciled record's stock
  is not below the quantity held for that id.
\<close>

fun admissible :: "Cart \<Rightarrow> cart_op \<Rightarrow> bool" where
  "admissible c (AddItem p) =
     list_all (\<lambda>item. id_p (product item) \<noteq> id_p p \<or> stock (product item) = stock p) c"
| "admissible c (UpdateQty productId q) = True"
| "admissible c (Reconcile u) =
     list_all (\<lambda>item. id_p (product item) \<noteq> id_p u
                 \<or> within_stock \<lparr>product = u, quantity = quantity item\<rparr>) c"

fun admissible_run :: "Cart \<Rightarrow> cart_op list \<Rightarrow> bool" where
  "admissible_run c [] = True"
| "admissible_run c (op # ops) =
     (admissible c op \<and> admissible_run (apply_cart_op op c) ops)"

definition cart_ids :: "Cart \<Rightarrow> string list" where
  "cart_ids cart = map (\<lambda>item. id_p (product item)) cart"

text \<open>
  What the operations maintain on the way: one entry per product id, and the stock bound.
\<close>

definition cart_inv :: "Cart \<Rightarrow> bool" where
  "cart_inv c = (distinct (cart_ids c) \<and> stock_invariant c)"

section \<open>Catalog view (ProductGrid.tsx)\<close>

text \<open>
  The record the store pushes (\<^verbatim>\<open>interface PocketBaseProduct\<close>, with the
  \<^verbatim>\<open>sale_price\<close> the handler also reads). \<^verbatim>\<open>hidden\<close> is optional; a missing
  flag is falsy.
\<close>

record PocketBaseProduct =
  rec_id :: string
  rec_name :: string
  rec_description :: string
  rec_short_description :: "string option"
  rec_price :: rat
  rec_sale_price :: "rat option"
  rec_category :: string
  rec_in_stock :: bool
  rec_stock :: "int option"
  rec_image :: "string list"
  rec_hover_image :: "string option"
  rec_created :: string
  rec_updated :: string
  rec_display_order :: "int option"
  rec_hidden :: "bool option"

text \<open>
  \<^verbatim>\<open>transformRecord\<close>. \<^verbatim>\<open>Number(stock)\<close> of a number is that number, and the
  NaN branch cannot be taken by an integer stock.
\<close>

definition transformRecord :: "PocketBaseProduct \<Rightarrow> Product" where
  "transformRecord r =
     \<lparr>id_p = rec_id r, name = rec_name r, description = rec_description r,
      short_description = rec_short_description r, price = rec_price r,
      sale_price = (if rec_sale_price r = Some 0 then None else rec_sale_price r),
      originalPrice = None,
      weight = (if rec_category r = [] then ''100g'' else rec_category r),
      images = Some [], image_p = Some (rec_image r),
      hover_image = rec_hover_image r, stock = rec_stock r\<rparr>"

datatype action = Create | Update | Delete

record RecordEvent =
  ev_action :: action
  ev_record :: PocketBaseProduct

text \<open>The test \<^verbatim>\<open>e.record.in_stock && !e.record.hidden\<close>.\<close>

definition in_stock_and_not_hidden :: "PocketBaseProduct \<Rightarrow> bool" where
  "in_stock_and_not_hidden r = (rec_in_stock r \<and> rec_hidden r \<noteq> Some True)"

text \<open>The subscription callback, as the updater of the \<^verbatim>\<open>products\<close> state.\<close>

definition subscribe_handler :: "RecordEvent \<Rightarrow> Product list \<Rightarrow> Product list" where
  "subscribe_handler e prev =
     (case ev_action e of
        Create \<Rightarrow>
          if in_stock_and_not_hidden (ev_record e)
          then transformRecord (ev_record e) # prev else prev
      | Update \<Rightarrow>
          if in_stock_and_not_hidden (ev_record e) then
            (case find (\<lambda>p. id_p p = rec_id (ev_record e)) prev of
               Some exists \<Rightarrow>
                 map (\<lambda>product. if id_p product = rec_id (ev_record e)
                                 then transformRecord (ev_record e) else product) prev
             | None \<Rightarrow> transformRecord (ev_record e) # prev)
          else filter (\<lambda>product. id_p product \<noteq> rec_id (ev_record e)) prev
      | Delete \<Rightarrow> filter (\<lambda>product. id_p product \<noteq> rec_id (ev_record e)) prev)"

definition rendered_ids :: "Product list \<Rightarrow> string list" where
  "rendered_ids products = map id_p products"

section \<open>Checkout (Checkout.tsx)\<close>

subsection \<open>Shipping phase\<close>

record ShippingInfo =
  firstName :: string
  lastName :: string
  email :: string
  phone :: string
  address :: string
  city :: string
  postalCode :: string
  country :: string

text \<open>
  What the page lets the shopper or the console see: a \<^verbatim>\<open>console.error\<close> with the
  place that raised it, and the two kinds of toast.
\<close>

datatype origin = OrderPhase | ItemPhase string | StockPhase string | EmailPhase | Handler

datatype signal = ConsoleError origin | ToastError | ToastSuccess

text \<open>
  \<^verbatim>\<open>validateForm\<close>: the list \<^verbatim>\<open>required\<close> as written in the source, each name with
  the field it reads; an empty string is falsy. The loop stops at the first field found
  empty, raises the error toast for it and returns \<^verbatim>\<open>false\<close>; otherwise the function
  returns \<^verbatim>\<open>true\<close>. The result pairs the returned value with the toast raised.
\<close>

definition required :: "(string \<times> (ShippingInfo \<Rightarrow> string)) list" where
  "required = [(''firstName'', firstName), (''lastName'', lastName), (''email'', email),
               (''phone'', phone), (''address'', address), (''city'', city),
               (''postalCode'', postalCode)]"

fun first_missing :: "(string \<times> (ShippingInfo \<Rightarrow> string)) list \<Rightarrow> ShippingInfo \<Rightarrow> string option" where
  "first_missing [] shippingInfo = None"
| "first_missing ((field, read) # rest) shippingInfo =
     (if read shippingInfo = [] then Some field else first_missing rest shippingInfo)"

definition validateForm :: "ShippingInfo \<Rightarrow> bool \<times> signal list" where
  "validateForm shippingInfo =
     (case first_missing required shippingInfo of
        Some field \<Rightarrow> (False, [ToastError])
      | None \<Rightarrow> (True, []))"

datatype step = shipping | payment

text \<open>
  The component state the shipping phase touches, the messages raised so far and the
  amounts for which a payment intent has been requested from the payment API.
\<close>

record CheckoutState =
  shippingInfo :: ShippingInfo
  clientSecret :: string
  currentStep :: step
  messages :: "signal list"
  intents_requested :: "rat list"

text \<open>
  \<^verbatim>\<open>proceedToPayment\<close>. The payment API is a parameter: \<open>None\<close> when
  \<^verbatim>\<open>createStripePaymentIntent\<close> throws, else the client secret it returns.
\<close>

definition proceedToPayment :: "(rat \<Rightarrow> string option) \<Rightarrow> Cart \<Rightarrow> CheckoutState \<Rightarrow> CheckoutState" where
  "proceedToPayment createStripePaymentIntent cart st =
     (let total = getTotalPrice cart + (if getTotalPrice cart > 50 then 0 else 5);
          st1 = st\<lparr>clientSecret := [], intents_requested := intents_requested st @ [total]\<rparr>
      in case createStripePaymentIntent total of
           Some secret \<Rightarrow>
             st1\<lparr>clientSecret := secret, currentStep := payment,
                  messages := messages st1 @ [ToastSuccess]\<rparr>
         | None \<Rightarrow> st1\<lparr>messages := messages st1 @ [ConsoleError Handler, ToastError]\<rparr>)"

definition handleShippingSubmit :: "(rat \<Rightarrow> string option) \<Rightarrow> Cart \<Rightarrow> CheckoutState \<Rightarrow> CheckoutState" where
  "handleShippingSubmit createStripePaymentIntent cart st =
     (let checked = validateForm (shippingInfo st);
          st1 = st\<lparr>messages := messages st @ snd checked\<rparr>
      in if fst checked then proceedToPayment createStripePaymentIntent cart st1 else st1)"






text \<open>The order summary of the page: lines 564 to 566.\<close>

definition summary_subtotal :: "Cart \<Rightarrow> rat" where
  "summary_subtotal cart = getTotalPrice cart"

definition summary_shipping :: "Cart \<Rightarrow> rat" where
  "summary_shipping cart = (if summary_subtotal cart > 50 then 0 else 5)"

definition summary_total :: "Cart \<Rightarrow> rat" where
  "summary_total cart = summary_subtotal cart + summary_shipping cart"

subsection \<open>The record store and its answers\<close>

record User =
  user_id :: string
  user_email :: string

record OrderData =
  od_user :: "string option"
  total_price :: rat
  status :: string
  shipping_address :: ShippingInfo
  guest_email :: "string option"
  guest_name :: "string option"
  guest_phone :: "string option"

record OrderItemData =
  oi_order :: string
  oi_product :: string
  oi_quantity :: int
  oi_price :: rat

text \<open>The two columns of a product row that checkout reads and writes.\<close>

record ProductRow =
  row_stock :: "int option"
  row_in_stock :: bool

record Backend =
  orders :: "(string \<times> OrderData) list"
  order_items :: "OrderItemData list"
  products :: "string \<Rightarrow> ProductRow option"

text \<open>
  How the remote calls of one finalize run answer: whether an SDK call resolves, and what a
  raw \<^verbatim>\<open>fetch\<close> does (throws, answers with \<^verbatim>\<open>ok\<close> false, or succeeds). Calls about one
  cart line are keyed by its product id. \<open>oauth_pattern\<close> stands for the string tests of
  \<^verbatim>\<open>isOAuthUser\<close> on a user object (oauth-helpers.ts); \<open>new_order_id\<close> is the id the
  store assigns to the created order. A rejected write leaves the store as it was.
\<close>

datatype fetch_result = NetworkError | NotOk | Ok

datatype email_result = EmailThrows | EmailNotSent | EmailSent

record Remote =
  oauth_pattern :: "User \<Rightarrow> bool"
  user_found :: bool
  new_order_id :: string
  sdk_order_create :: bool
  api_order_create :: fetch_result
  sdk_item_create :: "string \<Rightarrow> bool"
  api_item_create :: "string \<Rightarrow> fetch_result"
  sdk_product_get :: "string \<Rightarrow> bool"
  sdk_product_update :: "string \<Rightarrow> bool"
  api_product_get :: "string \<Rightarrow> fetch_result"
  api_product_patch :: "string \<Rightarrow> fetch_result"
  email_send :: email_result

definition isOAuthUser :: "Remote \<Rightarrow> User option \<Rightarrow> bool" where
  "isOAuthUser env user = (case user of None \<Rightarrow> False | Some u \<Rightarrow> oauth_pattern env u)"

text \<open>
  The choice of \<^verbatim>\<open>actualUserId\<close> and \<^verbatim>\<open>isOAuthUserFlag\<close>, the same in both finalize
  functions.
\<close>

definition resolve_user :: "Remote \<Rightarrow> User option \<Rightarrow> string option \<times> bool" where
  "resolve_user env user =
     (case user of
        None \<Rightarrow> (None, False)
      | Some u \<Rightarrow>
          if user_id u = [] then (None, False)
          else if isOAuthUser env user then
            (if user_found env then (Some (user_id u), True) else (None, True))
          else (Some (user_id u), False))"

definition build_orderData :: "Remote \<Rightarrow> User option \<Rightarrow> ShippingInfo \<Rightarrow> rat \<Rightarrow> string \<Rightarrow> OrderData" where
  "build_orderData env user info order_total st =
     (let (actualUserId, isOAuthUserFlag) = resolve_user env user;
          full_name = firstName info @ '' '' @ lastName info
      in \<lparr>od_user = actualUserId,
          total_price = order_total,
          status = st,
          shipping_address = info,
          guest_email = (case user of None \<Rightarrow> Some (email info)
                         | Some u \<Rightarrow> if isOAuthUserFlag then Some (user_email u) else None),
          guest_name = (if user = None \<or> isOAuthUserFlag then Some full_name else None),
          guest_phone = (if user = None \<or> isOAuthUserFlag then Some (phone info) else None)\<rparr>)"

definition store_order :: "Remote \<Rightarrow> OrderData \<Rightarrow> Backend \<Rightarrow> Backend" where
  "store_order env orderData b = b\<lparr>orders := orders b @ [(new_order_id env, orderData)]\<rparr>"

definition store_item :: "OrderItemData \<Rightarrow> Backend \<Rightarrow> Backend" where
  "store_item orderItemData b = b\<lparr>order_items := order_items b @ [orderItemData]\<rparr>"

text \<open>
  \<^verbatim>\<open>Math.max(0, (currentProduct.stock || 0) - item.quantity)\<close>: a missing or zero stock
  counts as 0.
\<close>

definition newStock :: "ProductRow \<Rightarrow> CartItem \<Rightarrow> int" where
  "newStock currentProduct item =
     max 0 ((case row_stock currentProduct of None \<Rightarrow> 0 | Some n \<Rightarrow> n) - quantity item)"

text \<open>What the finalize functions report back.\<close>

record Outcome =
  backend :: Backend
  cart_after :: Cart
  signals :: "signal list"
  navigated :: "string option"
  rethrown :: bool

text \<open>
  Reading a product row. The SDK's \<^verbatim>\<open>getOne\<close> rejects when the call is refused or the
  row is missing; a raw GET throws, answers not-ok (also for a missing row), or yields the row.
\<close>

definition sdk_getOne :: "Remote \<Rightarrow> Backend \<Rightarrow> string \<Rightarrow> ProductRow option" where
  "sdk_getOne env b productId =
     (if sdk_product_get env productId then products b productId else None)"

datatype fetched = Threw | Refused | Got ProductRow

definition api_getOne :: "Remote \<Rightarrow> Backend \<Rightarrow> string \<Rightarrow> fetched" where
  "api_getOne env b productId =
     (case api_product_get env productId of
        NetworkError \<Rightarrow> Threw
      | NotOk \<Rightarrow> Refused
      | Ok \<Rightarrow> (case products b productId of None \<Rightarrow> Refused | Some row \<Rightarrow> Got row))"

subsection \<open>The direct order-creation path: \<^verbatim>\<open>handleOrderCreation\<close>\<close>

text \<open>
  Order creation: the SDK call, and on its rejection the raw request; when that fails too
  the inner catch logs and throws. \<open>None\<close> is the throw.
\<close>

definition create_order_direct :: "Remote \<Rightarrow> OrderData \<Rightarrow> Backend \<Rightarrow> Backend option \<times> signal list" where
  "create_order_direct env orderData b =
     (if sdk_order_create env then (Some (store_order env orderData b), [])
      else case api_order_create env of
             Ok \<Rightarrow> (Some (store_order env orderData b), [])
           | NotOk \<Rightarrow> (None, [ConsoleError OrderPhase])
           | NetworkError \<Rightarrow> (None, [ConsoleError OrderPhase]))"

text \<open>
  The unit price this path writes:
  \<^verbatim>\<open>item.sale_price && item.sale_price > 0 ? item.sale_price : item.price\<close>.
\<close>

definition direct_item_price :: "CartItem \<Rightarrow> rat" where
  "direct_item_price item =
     (case sale_price (product item) of
        Some sp \<Rightarrow> if sp \<noteq> 0 \<and> sp > 0 then sp else price (product item)
      | None \<Rightarrow> price (product item))"

definition direct_orderItemData :: "string \<Rightarrow> CartItem \<Rightarrow> OrderItemData" where
  "direct_orderItemData orderId item =
     \<lparr>oi_order = orderId, oi_product = id_p (product item),
      oi_quantity = quantity item, oi_price = direct_item_price item\<rparr>"

text \<open>The loop over the cart lines: a failed line is logged and the loop goes on.\<close>

fun create_items_direct :: "Remote \<Rightarrow> string \<Rightarrow> Cart \<Rightarrow> Backend \<times> signal list \<Rightarrow> Backend \<times> signal list" where
  "create_items_direct env orderId [] acc = acc"
| "create_items_direct env orderId (item # rest) (b, sigs) =
     (if sdk_item_create env (id_p (product item))
      then create_items_direct env orderId rest
             (store_item (direct_orderItemData orderId item) b, sigs)
      else case api_item_create env (id_p (product item)) of
             Ok \<Rightarrow> create_items_direct env orderId rest
                     (store_item (direct_orderItemData orderId item) b, sigs)
           | NotOk \<Rightarrow> create_items_direct env orderId rest
                     (b, sigs @ [ConsoleError (ItemPhase (id_p (product item)))])
           | NetworkError \<Rightarrow> create_items_direct env orderId rest
                     (b, sigs @ [ConsoleError (ItemPhase (id_p (product item)))]))"

text \<open>The write \<^verbatim>\<open>{ stock: newStock, in_stock: newStock > 0 }\<close>.\<close>

definition write_stock_direct :: "string \<Rightarrow> int \<Rightarrow> Backend \<Rightarrow> Backend" where
  "write_stock_direct productId n b =
     b\<lparr>products := (products b)(productId \<mapsto> \<lparr>row_stock = Some n, row_in_stock = (n > 0)\<rparr>)\<rparr>"

text \<open>
  The catch block of one stock update: it logs, then reads and patches the row by raw
  requests.
\<close>

definition stock_fallback_direct :: "Remote \<Rightarrow> CartItem \<Rightarrow> Backend \<times> signal list \<Rightarrow> Backend \<times> signal list" where
  "stock_fallback_direct env item acc =
     (let productId = id_p (product item);
          b = fst acc;
          sigs = snd acc @ [ConsoleError (StockPhase productId)]
      in case api_getOne env b productId of
           Threw \<Rightarrow> (b, sigs @ [ConsoleError (StockPhase productId)])
         | Refused \<Rightarrow> (b, sigs)
         | Got productData \<Rightarrow>
             (case api_product_patch env productId of
                Ok \<Rightarrow> (write_stock_direct productId (newStock productData item) b, sigs)
              | NotOk \<Rightarrow> (b, sigs @ [ConsoleError (StockPhase productId)])
              | NetworkError \<Rightarrow> (b, sigs @ [ConsoleError (StockPhase productId)])))"

fun update_stock_direct :: "Remote \<Rightarrow> Cart \<Rightarrow> Backend \<times> signal list \<Rightarrow> Backend \<times> signal list" where
  "update_stock_direct env [] acc = acc"
| "update_stock_direct env (item # rest) (b, sigs) =
     (case sdk_getOne env b (id_p (product item)) of
        Some currentProduct \<Rightarrow>
          if sdk_product_update env (id_p (product item))
          then update_stock_direct env rest
                 (write_stock_direct (id_p (product item)) (newStock currentProduct item) b, sigs)
          else update_stock_direct env rest (stock_fallback_direct env item (b, sigs))
      | None \<Rightarrow> update_stock_direct env rest (stock_fallback_direct env item (b, sigs)))"

definition email_signals :: "Remote \<Rightarrow> signal list" where
  "email_signals env =
     (case email_send env of
        EmailSent \<Rightarrow> [ToastSuccess]
      | EmailNotSent \<Rightarrow> [ToastSuccess]
      | EmailThrows \<Rightarrow> [ConsoleError EmailPhase, ToastSuccess])"

text \<open>The order record this path sends: lines 73 to 75 and 114 to 132.\<close>

definition direct_orderData :: "Remote \<Rightarrow> User option \<Rightarrow> ShippingInfo \<Rightarrow> Cart \<Rightarrow> OrderData" where
  "direct_orderData env user info cart =
     (let subtotal = getTotalPrice cart;
          shipping_cost = (if subtotal > 50 then 0 else 5);
          order_total = subtotal + shipping_cost
      in build_orderData env user info order_total ''pending'')"

definition handleOrderCreation :: "Remote \<Rightarrow> User option \<Rightarrow> ShippingInfo \<Rightarrow> Cart \<Rightarrow> Backend \<Rightarrow> Outcome" where
  "handleOrderCreation env user info cart b =
     (let orderData = direct_orderData env user info cart
      in case create_order_direct env orderData b of
           (None, sigs) \<Rightarrow>
             \<lparr>backend = b, cart_after = cart,
              signals = sigs @ [ConsoleError Handler, ToastError],
              navigated = None, rethrown = True\<rparr>
         | (Some b1, sigs) \<Rightarrow>
             (let with_items = create_items_direct env (new_order_id env) cart (b1, sigs);
                  with_stock = update_stock_direct env cart with_items
              in \<lparr>backend = fst with_stock, cart_after = clearCart cart,
                  signals = snd with_stock @ email_signals env,
                  navigated = Some (new_order_id env), rethrown = False\<rparr>))"

subsection \<open>The payment-success path: \<^verbatim>\<open>handlePaymentSuccess\<close>\<close>

text \<open>
  Order creation: a guest order goes through the raw request (its failure is logged and
  thrown again), a signed-in shopper's order through the SDK (its rejection is thrown as
  it is).
\<close>

definition create_order_paid :: "Remote \<Rightarrow> User option \<Rightarrow> OrderData \<Rightarrow> Backend \<Rightarrow> Backend option \<times> signal list" where
  "create_order_paid env user orderData b =
     (case user of
        None \<Rightarrow>
          (case api_order_create env of
             Ok \<Rightarrow> (Some (store_order env orderData b), [])
           | NotOk \<Rightarrow> (None, [ConsoleError OrderPhase])
           | NetworkError \<Rightarrow> (None, [ConsoleError OrderPhase]))
      | Some u \<Rightarrow>
          if sdk_order_create env then (Some (store_order env orderData b), [])
          else (None, []))"

definition paid_orderItemData :: "string \<Rightarrow> CartItem \<Rightarrow> OrderItemData" where
  "paid_orderItemData orderId item =
     \<lparr>oi_order = orderId, oi_product = id_p (product item),
      oi_quantity = quantity item, oi_price = effectivePrice item\<rparr>"

text \<open>Whether the request that creates one line's order item succeeds.\<close>

definition item_request_ok :: "Remote \<Rightarrow> User option \<Rightarrow> CartItem \<Rightarrow> bool" where
  "item_request_ok env user item =
     (case user of
        None \<Rightarrow> api_item_create env (id_p (product item)) = Ok
      | Some u \<Rightarrow> sdk_item_create env (id_p (product item)))"

text \<open>
  \<^verbatim>\<open>cart.map(async ...)\<close> issues one request per line before \<^verbatim>\<open>Promise.all\<close> is
  awaited, so every line whose request succeeds is stored, whether or not another line's
  request fails; the lines are taken in cart order.
\<close>

fun create_items_paid :: "Remote \<Rightarrow> User option \<Rightarrow> string \<Rightarrow> Cart \<Rightarrow> Backend \<Rightarrow> Backend" where
  "create_items_paid env user orderId [] b = b"
| "create_items_paid env user orderId (item # rest) b =
     (if item_request_ok env user item
      then create_items_paid env user orderId rest (store_item (paid_orderItemData orderId item) b)
      else create_items_paid env user orderId rest b)"

text \<open>The write \<^verbatim>\<open>{ stock: newStock }\<close>: a patch of one column of an existing row.\<close>

definition write_stock_paid :: "string \<Rightarrow> ProductRow \<Rightarrow> int \<Rightarrow> Backend \<Rightarrow> Backend" where
  "write_stock_paid productId row n b =
     b\<lparr>products := (products b)(productId \<mapsto> row\<lparr>row_stock := Some n\<rparr>)\<rparr>"

definition update_stock_paid_item :: "Remote \<Rightarrow> User option \<Rightarrow> CartItem \<Rightarrow> Backend \<times> signal list \<Rightarrow> Backend \<times> signal list" where
  "update_stock_paid_item env user item acc =
     (let productId = id_p (product item); b = fst acc; sigs = snd acc
      in case user of
           None \<Rightarrow>
             (case api_getOne env b productId of
                Threw \<Rightarrow> (b, sigs @ [ConsoleError (StockPhase productId)])
              | Refused \<Rightarrow> (b, sigs @ [ConsoleError (StockPhase productId)])
              | Got currentProduct \<Rightarrow>
                  (case api_product_patch env productId of
                     Ok \<Rightarrow> (write_stock_paid productId currentProduct
                              (newStock currentProduct item) b, sigs)
                   | NotOk \<Rightarrow> (b, sigs @ [ConsoleError (StockPhase productId)])
                   | NetworkError \<Rightarrow> (b, sigs @ [ConsoleError (StockPhase productId)])))
         | Some u \<Rightarrow>
             (case sdk_getOne env b productId of
                None \<Rightarrow> (b, sigs @ [ConsoleError (StockPhase productId)])
              | Some currentProduct \<Rightarrow>
                  if sdk_product_update env productId
                  then (write_stock_paid productId currentProduct
                          (newStock currentProduct item) b, sigs)
                  else (b, sigs @ [ConsoleError (StockPhase productId)])))"

fun update_stock_paid :: "Remote \<Rightarrow> User option \<Rightarrow> Cart \<Rightarrow> Backend \<times> signal list \<Rightarrow> Backend \<times> signal list" where
  "update_stock_paid env user [] acc = acc"
| "update_stock_paid env user (item # rest) acc =
     update_stock_paid env user rest (update_stock_paid_item env user item acc)"

text \<open>The order record this path sends: lines 359 to 361 and 400 to 418.\<close>

definition paid_orderData :: "Remote \<Rightarrow> User option \<Rightarrow> ShippingInfo \<Rightarrow> Cart \<Rightarrow> OrderData" where
  "paid_orderData env user info cart =
     (let subtotal = getTotalPrice cart;
          shipping_cost = (if subtotal > 50 then 0 else 5);
          order_total = subtotal + shipping_cost
      in build_orderData env user info order_total ''paid'')"

definition handlePaymentSuccess :: "Remote \<Rightarrow> User option \<Rightarrow> ShippingInfo \<Rightarrow> Cart \<Rightarrow> Backend \<Rightarrow> Outcome" where
  "handlePaymentSuccess env user info cart b =
     (let orderData = paid_orderData env user info cart
      in case create_order_paid env user orderData b of
           (None, sigs) \<Rightarrow>
             \<lparr>backend = b, cart_after = cart,
              signals = sigs @ [ConsoleError Handler, ToastError],
              navigated = None, rethrown = False\<rparr>
         | (Some b1, sigs) \<Rightarrow>
             (let b2 = create_items_paid env user (new_order_id env) cart b1
              in if list_all (item_request_ok env user) cart then
                   (let with_stock = update_stock_paid env user cart (b2, sigs)
                    in \<lparr>backend = fst with_stock, cart_after = clearCart cart,
                        signals = snd with_stock @ [ToastSuccess],
                        navigated = Some (new_order_id env), rethrown = False\<rparr>)
                 else
                   \<lparr>backend = b2, cart_after = cart,
                    signals = sigs @ [ConsoleError Handler, ToastError],
                    navigated = None, rethrown = False\<rparr>))"

subsection \<open>Failures of the later write phases\<close>

text \<open>
  A line's order item is not created on the direct path when the SDK call and the raw
  request both fail; a line's stock update is refused when the read or the write is.
\<close>

definition direct_item_fails :: "Remote \<Rightarrow> CartItem \<Rightarrow> bool" where
  "direct_item_fails env item =
     (\<not> sdk_item_create env (id_p (product item))
      \<and> api_item_create env (id_p (product item)) \<noteq> Ok)"

definition direct_stock_refused :: "Remote \<Rightarrow> CartItem \<Rightarrow> bool" where
  "direct_stock_refused env item =
     (\<not> sdk_product_get env (id_p (product item))
      \<or> \<not> sdk_product_update env (id_p (product item)))"

definition paid_stock_refused :: "Remote \<Rightarrow> User option \<Rightarrow> CartItem \<Rightarrow> bool" where
  "paid_stock_refused env user item =
     (case user of
        None \<Rightarrow> api_product_get env (id_p (product item)) \<noteq> Ok
                \<or> api_product_patch env (id_p (product item)) \<noteq> Ok
      | Some u \<Rightarrow> \<not> sdk_product_get env (id_p (product item))
                  \<or> \<not> sdk_product_update env (id_p (product item)))"

text \<open>Signals among which no toast has been raised.\<close>

definition only_logged :: "signal list \<Rightarrow> bool" where
  "only_logged sigs = (ToastError \<notin> set sigs \<and> ToastSuccess \<notin> set sigs)"

section \<open>Sample data\<close>

definition tea :: "string \<Rightarrow> rat \<Rightarrow> rat option \<Rightarrow> int option \<Rightarrow> Product" where
  "tea i p sp st =
     \<lparr>id_p = i, name = ''Sencha'', description = ''Green tea'', short_description = None,
      price = p, sale_price = sp, originalPrice = None, weight = ''100g'',
      images = None, image_p = None, hover_image = None, stock = st\<rparr>"

definition pushed :: "string \<Rightarrow> bool \<Rightarrow> bool option \<Rightarrow> PocketBaseProduct" where
  "pushed i in_st hid =
     \<lparr>rec_id = i, rec_name = ''Sencha'', rec_description = ''Green tea'',
      rec_short_description = None, rec_price = 10, rec_sale_price = None,
      rec_category = ''100g'', rec_in_stock = in_st, rec_stock = Some 3, rec_image = [],
      rec_hover_image = None, rec_created = ''2025-01-01'', rec_updated = ''2025-01-02'',
      rec_display_order = None, rec_hidden = hid\<rparr>"

definition filled_form :: "string \<Rightarrow> ShippingInfo" where
  "filled_form c =
     \<lparr>firstName = ''Aylin'', lastName = ''Mammadova'', email = ''aylin@example.com'',
      phone = ''+994501234567'', address = ''1 Tea Street'', city = ''Baku'',
      postalCode = ''AZ1000'', country = c\<rparr>"

definition fresh_page :: "ShippingInfo \<Rightarrow> CheckoutState" where
  "fresh_page info =
     \<lparr>shippingInfo = info, clientSecret = [], currentStep = shipping, messages = [],
      intents_requested = []\<rparr>"

definition all_fine :: Remote where
  "all_fine =
     \<lparr>oauth_pattern = (\<lambda>u. False), user_found = True, new_order_id = ''order1'',
      sdk_order_create = True, api_order_create = Ok,
      sdk_item_create = (\<lambda>i. True), api_item_create = (\<lambda>i. Ok),
      sdk_product_get = (\<lambda>i. True), sdk_product_update = (\<lambda>i. True),
      api_product_get = (\<lambda>i. Ok), api_product_patch = (\<lambda>i. Ok),
      email_send = EmailSent\<rparr>"

definition items_refused :: Remote where
  "items_refused =
     all_fine\<lparr>sdk_item_create := (\<lambda>i. False), api_item_create := (\<lambda>i. NotOk)\<rparr>"

definition patch_refused :: Remote where
  "patch_refused = all_fine\<lparr>api_product_patch := (\<lambda>i. NotOk)\<rparr>"

definition shop :: Backend where
  "shop = \<lparr>orders = [], order_items = [],
            products = [''a'' \<mapsto> \<lparr>row_stock = Some 3, row_in_stock = True\<rparr>]\<rparr>"

section \<open>Total price\<close>

lemma foldl_total_acc:
  "foldl (\<lambda>total item. total + f item) (acc::rat) xs = acc + (\<Sum>item\<leftarrow>xs. f item)"
  by (induction xs arbitrary: acc) (simp_all add: add.assoc)

lemma effectivePrice_spec: "effectivePrice item = spec_unit_price item"
  by (simp add: effectivePrice_def spec_unit_price_def split: option.split)

text \<open>
  C5: for every cart, the empty one included, \<^verbatim>\<open>getTotalPrice()\<close> is the sum over all
  entries of the sale price if \<open>0 < sale price < price\<close>, else the price, multiplied by the
  entry's quantity; for the empty cart it is 0.
\<close>

theorem getTotalPrice_sum:
  "getTotalPrice cart = spec_total_price cart \<and> getTotalPrice [] = 0"
  by (simp add: getTotalPrice_def spec_total_price_def foldl_total_acc effectivePrice_spec)

text \<open>
  The scenario of the specification: product A at 10 with sale price 8, twice, and
  product B at 5, once, total 21.
\<close>

theorem getTotalPrice_sum_witness:
  "getTotalPrice [\<lparr>product = tea ''A'' 10 (Some 8) None, quantity = 2\<rparr>,
                  \<lparr>product = tea ''B'' 5 None None, quantity = 1\<rparr>] = 21"
  using getTotalPrice_sum [of "[\<lparr>product = tea ''A'' 10 (Some 8) None, quantity = 2\<rparr>,
                                \<lparr>product = tea ''B'' 5 None None, quantity = 1\<rparr>]"]
  by (simp add: spec_total_price_def spec_unit_price_def tea_def)

section \<open>Cart entries and their ids\<close>

lemma find_cart_None:
  "find (\<lambda>item. id_p (product item) = X) c = None \<longleftrightarrow> X \<notin> set (cart_ids c)"
  by (auto simp: find_None_iff cart_ids_def)

lemma find_cart_Some:
  "find (\<lambda>item. id_p (product item) = X) c = Some e \<Longrightarrow> e \<in> set c \<and> id_p (product e) = X"
  by (auto simp: find_Some_iff)

lemma map_id_unchanged:
  "X \<notin> set (cart_ids c) \<Longrightarrow>
   map (\<lambda>item. if id_p (product item) = X then f item else item) c = c"
  by (induction c) (auto simp: cart_ids_def)

lemma distinct_ids_unique:
  "distinct (cart_ids c) \<Longrightarrow> a \<in> set c \<Longrightarrow> b \<in> set c \<Longrightarrow>
   id_p (product a) = id_p (product b) \<Longrightarrow> a = b"
  unfolding cart_ids_def by (auto simp: distinct_map dest: inj_onD)

lemma cart_ids_map_keep:
  "(\<And>item. item \<in> set c \<Longrightarrow> id_p (product (f item)) = id_p (product item)) \<Longrightarrow>
   cart_ids (map f c) = cart_ids c"
  by (induction c) (auto simp: cart_ids_def)

section \<open>Reconcile from an external update\<close>

text \<open>
  C8: for every cart and every pushed product record U, the reconcile operation replaces
  each entry that has U's id by U's fields with the entry's own quantity, leaves every other
  entry as it is, creates no entry, and leaves the cart unchanged when no entry has U's id.
\<close>

theorem updateProductInCart_frame:
  "length (updateProductInCart U cart) = length cart \<and>
   (\<forall>i < length cart.
      updateProductInCart U cart ! i =
        (if id_p (product (cart ! i)) = id_p U
         then \<lparr>product = U, quantity = quantity (cart ! i)\<rparr>
         else cart ! i)) \<and>
   (id_p U \<notin> set (cart_ids cart) \<longrightarrow> updateProductInCart U cart = cart)"
  by (simp add: updateProductInCart_def map_id_unchanged)

theorem updateProductInCart_frame_witness:
  "updateProductInCart (tea ''a'' 12 (Some 9) (Some 5))
     [\<lparr>product = tea ''a'' 10 None (Some 3), quantity = 2\<rparr>,
      \<lparr>product = tea ''b'' 5 None None, quantity = 1\<rparr>]
   = [\<lparr>product = tea ''a'' 12 (Some 9) (Some 5), quantity = 2\<rparr>,
      \<lparr>product = tea ''b'' 5 None None, quantity = 1\<rparr>] \<and>
   updateProductInCart (tea ''c'' 12 None None)
     [\<lparr>product = tea ''b'' 5 None None, quantity = 1\<rparr>]
   = [\<lparr>product = tea ''b'' 5 None None, quantity = 1\<rparr>]"
  using updateProductInCart_frame [of "tea ''c'' 12 None None"
          "[\<lparr>product = tea ''b'' 5 None None, quantity = 1\<rparr>]"]
  by (simp add: updateProductInCart_def tea_def cart_ids_def)

section \<open>Update quantity\<close>

text \<open>
  C7: for a cart that holds an entry for product id X with known stock S,
  \<^verbatim>\<open>updateQuantity(X, q)\<close> with \<open>q \<le> 0\<close> removes the entry (the result is the cart
  filtered of id X); with \<open>0 < q \<le> S\<close> it sets that entry's quantity to q; with
  \<open>q > S\<close> it sets it to S; entries of other ids are untouched; and for an id that is not in
  the cart and \<open>q > 0\<close> the cart is unchanged. A stock count is not negative, so \<open>q > S\<close>
  makes q positive; the third case is stated for every S with \<open>0 < q\<close>.
\<close>

theorem updateQuantity_cases:
  assumes "i < length cart" and "id_p (product (cart ! i)) = X"
    and "stock (product (cart ! i)) = Some S"
  shows "(q \<le> 0 \<longrightarrow>
            updateQuantity X q cart = filter (\<lambda>item. id_p (product item) \<noteq> X) cart
          \<and> X \<notin> set (cart_ids (updateQuantity X q cart))) \<and>
         (0 < q \<and> q \<le> S \<longrightarrow> updateQuantity X q cart ! i = (cart ! i)\<lparr>quantity := q\<rparr>) \<and>
         (0 < q \<and> S < q \<longrightarrow> updateQuantity X q cart ! i = (cart ! i)\<lparr>quantity := S\<rparr>) \<and>
         (0 < q \<longrightarrow>
            length (updateQuantity X q cart) = length cart
          \<and> (\<forall>j < length cart. id_p (product (cart ! j)) \<noteq> X \<longrightarrow>
                updateQuantity X q cart ! j = cart ! j)) \<and>
         (\<forall>Y. 0 < q \<and> Y \<notin> set (cart_ids cart) \<longrightarrow> updateQuantity Y q cart = cart)"
proof -
  have absent: "updateQuantity Y q cart = cart" if "0 < q" "Y \<notin> set (cart_ids cart)" for Y
    using that by (simp add: updateQuantity_def map_id_unchanged)
  have rest: "(q \<le> 0 \<longrightarrow>
            updateQuantity X q cart = filter (\<lambda>item. id_p (product item) \<noteq> X) cart
          \<and> X \<notin> set (cart_ids (updateQuantity X q cart))) \<and>
         (0 < q \<and> q \<le> S \<longrightarrow> updateQuantity X q cart ! i = (cart ! i)\<lparr>quantity := q\<rparr>) \<and>
         (0 < q \<and> S < q \<longrightarrow> updateQuantity X q cart ! i = (cart ! i)\<lparr>quantity := S\<rparr>) \<and>
         (0 < q \<longrightarrow>
            length (updateQuantity X q cart) = length cart
          \<and> (\<forall>j < length cart. id_p (product (cart ! j)) \<noteq> X \<longrightarrow>
                updateQuantity X q cart ! j = cart ! j))"
    using assms by (auto simp: updateQuantity_def removeFromCart_def cart_ids_def)
  from rest absent show ?thesis by blast
qed

theorem updateQuantity_cases_witness:
  "updateQuantity ''a'' (- 1) [\<lparr>product = tea ''a'' 10 None (Some 3), quantity = 1\<rparr>,
                               \<lparr>product = tea ''b'' 5 None None, quantity = 1\<rparr>]
     = [\<lparr>product = tea ''b'' 5 None None, quantity = 1\<rparr>] \<and>
   updateQuantity ''a'' 2 [\<lparr>product = tea ''a'' 10 None (Some 3), quantity = 1\<rparr>,
                           \<lparr>product = tea ''b'' 5 None None, quantity = 1\<rparr>] ! 0
     = \<lparr>product = tea ''a'' 10 None (Some 3), quantity = 2\<rparr> \<and>
   updateQuantity ''a'' 7 [\<lparr>product = tea ''a'' 10 None (Some 3), quantity = 1\<rparr>,
                           \<lparr>product = tea ''b'' 5 None None, quantity = 1\<rparr>] ! 0
     = \<lparr>product = tea ''a'' 10 None (Some 3), quantity = 3\<rparr> \<and>
   updateQuantity ''c'' 7 [\<lparr>product = tea ''a'' 10 None (Some 3), quantity = 1\<rparr>,
                           \<lparr>product = tea ''b'' 5 None None, quantity = 1\<rparr>]
     = [\<lparr>product = tea ''a'' 10 None (Some 3), quantity = 1\<rparr>,
        \<lparr>product = tea ''b'' 5 None None, quantity = 1\<rparr>]"
  using updateQuantity_cases [of 0 "[\<lparr>product = tea ''a'' 10 None (Some 3), quantity = 1\<rparr>,
                                     \<lparr>product = tea ''b'' 5 None None, quantity = 1\<rparr>]"
                                 "''a''" 3 "- 1"]
        updateQuantity_cases [of 0 "[\<lparr>product = tea ''a'' 10 None (Some 3), quantity = 1\<rparr>,
                                     \<lparr>product = tea ''b'' 5 None None, quantity = 1\<rparr>]"
                                 "''a''" 3 2]
        updateQuantity_cases [of 0 "[\<lparr>product = tea ''a'' 10 None (Some 3), quantity = 1\<rparr>,
                                     \<lparr>product = tea ''b'' 5 None None, quantity = 1\<rparr>]"
                                 "''a''" 3 7]
  by (simp add: tea_def cart_ids_def)

section \<open>Add item\<close>

lemma addToCart_first:
  "stock P = Some s \<Longrightarrow> 0 < s \<Longrightarrow>
   addToCart_run P [] = ([\<lparr>product = P, quantity = 1\<rparr>], False)"
  by (simp add: addToCart_run_def)

lemma addToCart_single:
  "stock P = Some s \<Longrightarrow>
   addToCart_run P [\<lparr>product = P, quantity = k\<rparr>] =
     (if k \<ge> s then ([\<lparr>product = P, quantity = k\<rparr>], True)
      else ([\<lparr>product = P, quantity = k + 1\<rparr>], False))"
  by (simp add: addToCart_run_def)

lemma addToCart_pow:
  assumes "stock P = Some (int S)"
  shows "0 < k \<Longrightarrow> k \<le> S \<Longrightarrow>
         (addToCart P ^^ k) [] = [\<lparr>product = P, quantity = int k\<rparr>]"
proof (induction k)
  case 0
  then show ?case by simp
next
  case (Suc k)
  show ?case
  proof (cases "k = 0")
    case True
    with Suc.prems assms show ?thesis
      by (simp add: addToCart_def addToCart_first)
  next
    case False
    with Suc have "(addToCart P ^^ k) [] = [\<lparr>product = P, quantity = int k\<rparr>]" by simp
    moreover have "addToCart P [\<lparr>product = P, quantity = int k\<rparr>]
                     = [\<lparr>product = P, quantity = int (Suc k)\<rparr>]"
      using Suc.prems assms by (simp add: addToCart_def addToCart_single add.commute)
    ultimately show ?thesis by simp
  qed
qed

text \<open>
  C6: for every product P with known stock count S, calling \<^verbatim>\<open>addToCart(P)\<close> on the empty
  cart \<open>S + 1\<close> times leaves exactly S units of P: after each of the first S calls the
  quantity has grown by one and no warning was raised, and call \<open>S + 1\<close> changes nothing
  and raises the warning.
\<close>

theorem addToCart_stock_limit:
  assumes "stock P = Some (int S)"
  shows "(\<forall>k \<le> S. getItemQuantity (id_p P) ((addToCart P ^^ k) []) = int k) \<and>
         (\<forall>k < S. \<not> snd (addToCart_run P ((addToCart P ^^ k) []))) \<and>
         addToCart_run P ((addToCart P ^^ S) []) = ((addToCart P ^^ S) [], True) \<and>
         (addToCart P ^^ Suc S) [] =
           (if S = 0 then [] else [\<lparr>product = P, quantity = int S\<rparr>]) \<and>
         getItemQuantity (id_p P) ((addToCart P ^^ Suc S) []) = int S \<and>
         getTotalItems ((addToCart P ^^ Suc S) []) = int S"
proof -
  have q: "getItemQuantity (id_p P) ((addToCart P ^^ k) []) = int k" if "k \<le> S" for k
  proof (cases "k = 0")
    case True
    then show ?thesis by (simp add: getItemQuantity_def)
  next
    case False
    with that assms show ?thesis by (simp add: addToCart_pow getItemQuantity_def)
  qed
  have w: "\<not> snd (addToCart_run P ((addToCart P ^^ k) []))" if "k < S" for k
  proof (cases "k = 0")
    case True
    with that assms show ?thesis by (simp add: addToCart_first)
  next
    case False
    with that assms show ?thesis by (simp add: addToCart_pow addToCart_single)
  qed
  have last: "addToCart_run P ((addToCart P ^^ S) []) = ((addToCart P ^^ S) [], True)"
  proof (cases "S = 0")
    case True
    with assms show ?thesis by (simp add: addToCart_run_def)
  next
    case False
    with assms show ?thesis by (simp add: addToCart_pow addToCart_single)
  qed
  have fin: "(addToCart P ^^ Suc S) [] = (addToCart P ^^ S) []"
    using last by (simp add: addToCart_def)
  have shape: "(addToCart P ^^ S) [] =
                 (if S = 0 then [] else [\<lparr>product = P, quantity = int S\<rparr>])"
    using assms by (simp add: addToCart_pow)
  have tot: "getTotalItems ((addToCart P ^^ Suc S) []) = int S"
    unfolding fin shape by (simp add: getTotalItems_def)
  have qfin: "getItemQuantity (id_p P) ((addToCart P ^^ Suc S) []) = int S"
    unfolding fin by (rule q) simp
  have shape': "(addToCart P ^^ Suc S) [] =
                  (if S = 0 then [] else [\<lparr>product = P, quantity = int S\<rparr>])"
    unfolding fin by (rule shape)
  from q w last shape' qfin tot show ?thesis by blast
qed

theorem addToCart_stock_limit_witness:
  "stock (tea ''a'' 10 None (Some 2)) = Some (int 2) \<and>
   (addToCart (tea ''a'' 10 None (Some 2)) ^^ Suc 2) []
     = [\<lparr>product = tea ''a'' 10 None (Some 2), quantity = 2\<rparr>] \<and>
   getTotalItems ((addToCart (tea ''a'' 10 None (Some 2)) ^^ Suc 2) []) = 2"
proof -
  have h: "stock (tea ''a'' 10 None (Some 2)) = Some (int 2)"
    by (simp add: tea_def)
  from addToCart_stock_limit [OF h]
  have "(addToCart (tea ''a'' 10 None (Some 2)) ^^ Suc 2) []
          = (if (2::nat) = 0 then []
             else [\<lparr>product = tea ''a'' 10 None (Some 2), quantity = int 2\<rparr>])"
    and "getTotalItems ((addToCart (tea ''a'' 10 None (Some 2)) ^^ Suc 2) []) = int 2"
    by blast+
  with h show ?thesis by simp
qed

section \<open>The stock invariant over sequences of operations\<close>

lemma addToCart_inv:
  assumes "cart_inv c" "admissible c (AddItem p)"
  shows "cart_inv (addToCart p c)"
proof (cases "find (\<lambda>item. id_p (product item) = id_p p) c")
  case None
  then have "id_p p \<notin> set (cart_ids c)" by (simp add: find_cart_None)
  with assms(1) None show ?thesis
    by (auto simp: addToCart_def addToCart_run_def cart_inv_def stock_invariant_def
        within_stock_def cart_ids_def split: option.splits)
next
  case (Some e)
  then have e: "e \<in> set c" "id_p (product e) = id_p p" by (auto dest: find_cart_Some)
  let ?f = "\<lambda>item. if id_p (product item) = id_p p
                   then item\<lparr>quantity := quantity item + 1\<rparr> else item"
  have ids: "cart_ids (map ?f c) = cart_ids c" by (rule cart_ids_map_keep) simp
  have only: "item = e" if "item \<in> set c" "id_p (product item) = id_p p" for item
    using that e assms(1) distinct_ids_unique[of c item e] by (simp add: cart_inv_def)
  have st: "stock (product e) = stock p"
    using assms(2) e by (auto simp: list_all_iff)
  show ?thesis
  proof (cases "stock p")
    case None
    have "list_all within_stock (map ?f c)"
      using assms(1) only st None
      by (auto simp: list_all_iff cart_inv_def stock_invariant_def within_stock_def)
    with assms(1) ids Some None show ?thesis
      by (simp add: addToCart_def addToCart_run_def cart_inv_def stock_invariant_def)
  next
    case (Some s)
    show ?thesis
    proof (cases "quantity e \<ge> s")
      case True
      with assms(1) \<open>find _ c = Some e\<close> Some show ?thesis
        by (simp add: addToCart_def addToCart_run_def)
    next
      case False
      have "list_all within_stock (map ?f c)"
        using assms(1) only st Some False
        by (auto simp: list_all_iff cart_inv_def stock_invariant_def within_stock_def)
      with assms(1) ids \<open>find _ c = Some e\<close> Some False show ?thesis
        by (simp add: addToCart_def addToCart_run_def cart_inv_def stock_invariant_def)
    qed
  qed
qed

lemma updateQuantity_inv:
  assumes "cart_inv c"
  shows "cart_inv (updateQuantity X q c)"
proof (cases "q \<le> 0")
  case True
  with assms show ?thesis
    by (auto simp: updateQuantity_def removeFromCart_def cart_inv_def stock_invariant_def
        cart_ids_def list_all_iff distinct_map_filter)
next
  case False
  let ?f = "\<lambda>item. if id_p (product item) = X then
               (case stock (product item) of
                  Some s \<Rightarrow> if q > s then item\<lparr>quantity := s\<rparr> else item\<lparr>quantity := q\<rparr>
                | None \<Rightarrow> item\<lparr>quantity := q\<rparr>)
             else item"
  have ids: "cart_ids (map ?f c) = cart_ids c"
    by (rule cart_ids_map_keep) (simp split: option.split)
  have "list_all within_stock (map ?f c)"
    using assms
    by (auto simp: list_all_iff cart_inv_def stock_invariant_def within_stock_def
        split: option.splits)
  with assms ids False show ?thesis
    by (simp add: updateQuantity_def cart_inv_def stock_invariant_def)
qed

lemma updateProductInCart_inv:
  assumes "cart_inv c" "admissible c (Reconcile u)"
  shows "cart_inv (updateProductInCart u c)"
proof -
  let ?f = "\<lambda>item. if id_p (product item) = id_p u
                  then \<lparr>product = u, quantity = quantity item\<rparr> else item"
  have ids: "cart_ids (map ?f c) = cart_ids c" by (rule cart_ids_map_keep) simp
  have "list_all within_stock (map ?f c)"
    using assms by (auto simp: list_all_iff cart_inv_def stock_invariant_def)
  with assms(1) ids show ?thesis
    by (simp add: updateProductInCart_def cart_inv_def stock_invariant_def)
qed

lemma apply_cart_op_inv:
  "cart_inv c \<Longrightarrow> admissible c op \<Longrightarrow> cart_inv (apply_cart_op op c)"
  by (cases op) (simp_all add: addToCart_inv updateQuantity_inv updateProductInCart_inv)

lemma run_inv:
  "cart_inv c \<Longrightarrow> admissible_run c ops \<Longrightarrow>
   cart_inv (foldl (\<lambda>c op. apply_cart_op op c) c ops)"
  by (induction ops arbitrary: c) (simp_all add: apply_cart_op_inv)

text \<open>
  C1 as stated fails: two units of a product with stock 2 are in the cart when a realtime
  update lowers its stock to 1; the reconcile keeps the quantity 2 beside the stock 1.
\<close>

theorem reconcile_breaks_stock_invariant:
  "\<not> stock_invariant
       (run_cart_ops [AddItem (tea ''a'' 10 None (Some 2)),
                      AddItem (tea ''a'' 10 None (Some 2)),
                      Reconcile (tea ''a'' 10 None (Some 1))])"
  by (simp add: run_cart_ops_def addToCart_def addToCart_run_def updateProductInCart_def
      stock_invariant_def within_stock_def tea_def)

text \<open>
  The same happens when \<^verbatim>\<open>addToCart\<close> is given a record of that product whose stock
  differs from the entry's: the guard reads the stock of the argument, the entry keeps
  its own.
\<close>

lemma add_with_other_stock_breaks_invariant:
  "\<not> stock_invariant
       (run_cart_ops [AddItem (tea ''a'' 10 None (Some 1)),
                      AddItem (tea ''a'' 10 None (Some 5))])"
  by (simp add: run_cart_ops_def addToCart_def addToCart_run_def
      stock_invariant_def within_stock_def tea_def)

text \<open>
  C1, amended: in every cart reached from the empty cart by add item, update quantity and
  reconcile, where each added product record carries the stock that the cart entry of its id
  already holds and each reconciled record has no stock or a stock not below the quantity
  held for its id, every entry with a known stock has a quantity not above that stock.
\<close>

theorem admissible_ops_keep_stock_invariant:
  "admissible_run [] ops \<Longrightarrow> stock_invariant (run_cart_ops ops)"
  using run_inv[of "[]" ops]
  by (simp add: cart_inv_def run_cart_ops_def stock_invariant_def cart_ids_def)

theorem admissible_ops_keep_stock_invariant_witness:
  "admissible_run []
     [AddItem (tea ''a'' 10 None (Some 2)), AddItem (tea ''a'' 10 None (Some 2)),
      AddItem (tea ''a'' 10 None (Some 2)), UpdateQty ''a'' 5,
      Reconcile (tea ''a'' 12 None (Some 4))] \<and>
   stock_invariant
     (run_cart_ops
        [AddItem (tea ''a'' 10 None (Some 2)), AddItem (tea ''a'' 10 None (Some 2)),
         AddItem (tea ''a'' 10 None (Some 2)), UpdateQty ''a'' 5,
         Reconcile (tea ''a'' 12 None (Some 4))])"
proof -
  have adm: "admissible_run []
     [AddItem (tea ''a'' 10 None (Some 2)), AddItem (tea ''a'' 10 None (Some 2)),
      AddItem (tea ''a'' 10 None (Some 2)), UpdateQty ''a'' 5,
      Reconcile (tea ''a'' 12 None (Some 4))]"
    by (simp add: addToCart_def addToCart_run_def updateQuantity_def within_stock_def tea_def)
  from adm admissible_ops_keep_stock_invariant [OF adm] show ?thesis by simp
qed

section \<open>Realtime updates of the catalog view\<close>

lemma map_replace_ids:
  "id_p t = X \<Longrightarrow>
   rendered_ids (map (\<lambda>product. if id_p product = X then t else product) prev)
     = rendered_ids prev"
  by (induction prev) (auto simp: rendered_ids_def)

lemma transformRecord_id: "id_p (transformRecord r) = rec_id r"
  by (simp add: transformRecord_def)

lemma find_rendered_None:
  "find (\<lambda>p. id_p p = X) prev = None \<longleftrightarrow> X \<notin> set (rendered_ids prev)"
  by (force simp: find_None_iff rendered_ids_def)

lemma update_invisible:
  "\<not> in_stock_and_not_hidden r \<Longrightarrow>
   subscribe_handler \<lparr>ev_action = Update, ev_record = r\<rparr> prev
     = filter (\<lambda>p. id_p p \<noteq> rec_id r) prev"
  by (simp add: subscribe_handler_def)

lemma update_visible_absent:
  "in_stock_and_not_hidden r \<Longrightarrow> rec_id r \<notin> set (rendered_ids prev) \<Longrightarrow>
   subscribe_handler \<lparr>ev_action = Update, ev_record = r\<rparr> prev = transformRecord r # prev"
  by (simp add: subscribe_handler_def find_rendered_None[symmetric])

lemma update_visible_present:
  assumes "in_stock_and_not_hidden r" and "rec_id r \<in> set (rendered_ids prev)"
  shows "subscribe_handler \<lparr>ev_action = Update, ev_record = r\<rparr> prev
           = map (\<lambda>product. if id_p product = rec_id r then transformRecord r else product) prev"
proof -
  obtain a where "find (\<lambda>p. id_p p = rec_id r) prev = Some a"
    using assms(2) find_rendered_None[of "rec_id r" prev]
    by (cases "find (\<lambda>p. id_p p = rec_id r) prev") auto
  with assms(1) show ?thesis by (simp add: subscribe_handler_def)
qed

text \<open>
  C3 as stated fails in its converse half: an update that un-hides a product whose
  \<^verbatim>\<open>in_stock\<close> flag is false does not bring it back into the rendered list.
\<close>

theorem unhidden_out_of_stock_not_rendered:
  "rec_hidden (pushed ''a'' False (Some False)) = Some False \<and>
   ''a'' \<notin> set (rendered_ids
                   (subscribe_handler
                      \<lparr>ev_action = Update, ev_record = pushed ''a'' False (Some False)\<rparr> []))"
  by (simp add: pushed_def subscribe_handler_def in_stock_and_not_hidden_def rendered_ids_def)

text \<open>
  C3, amended: for every rendered list and every realtime update event, if the pushed record
  is hidden or not in stock, the list afterwards is the old list without the entries of that
  id, so it no longer contains the id; if the record is in stock and not hidden, the list
  afterwards contains the id: an entry of that id is replaced in place by the transformed
  record (every other entry kept), and when there is none the transformed record is
  prepended.
\<close>

theorem update_event_visibility:
  "(\<not> in_stock_and_not_hidden r \<longrightarrow>
      subscribe_handler \<lparr>ev_action = Update, ev_record = r\<rparr> prev
        = filter (\<lambda>p. id_p p \<noteq> rec_id r) prev
    \<and> rec_id r \<notin> set (rendered_ids
                         (subscribe_handler \<lparr>ev_action = Update, ev_record = r\<rparr> prev))) \<and>
   (in_stock_and_not_hidden r \<longrightarrow>
      rec_id r \<in> set (rendered_ids
                        (subscribe_handler \<lparr>ev_action = Update, ev_record = r\<rparr> prev))
    \<and> (rec_id r \<in> set (rendered_ids prev) \<longrightarrow>
         length (subscribe_handler \<lparr>ev_action = Update, ev_record = r\<rparr> prev) = length prev
       \<and> (\<forall>i < length prev.
             subscribe_handler \<lparr>ev_action = Update, ev_record = r\<rparr> prev ! i =
               (if id_p (prev ! i) = rec_id r then transformRecord r else prev ! i)))
    \<and> (rec_id r \<notin> set (rendered_ids prev) \<longrightarrow>
         subscribe_handler \<lparr>ev_action = Update, ev_record = r\<rparr> prev
           = transformRecord r # prev))"
proof (cases "in_stock_and_not_hidden r")
  case False
  then show ?thesis
    by (auto simp: update_invisible rendered_ids_def)
next
  case True
  show ?thesis
  proof (cases "rec_id r \<in> set (rendered_ids prev)")
    case present: True
    have "rendered_ids (map (\<lambda>product. if id_p product = rec_id r
                                       then transformRecord r else product) prev)
            = rendered_ids prev"
      by (rule map_replace_ids) (rule transformRecord_id)
    with True present show ?thesis
      by (simp add: update_visible_present)
  next
    case absent: False
    with True show ?thesis
      by (simp add: update_visible_absent rendered_ids_def transformRecord_id)
  qed
qed

text \<open>
  Hiding a listed product removes it; un-hiding it while it is in stock brings it back at
  the head of the list.
\<close>

theorem update_event_visibility_witness:
  "subscribe_handler \<lparr>ev_action = Update, ev_record = pushed ''a'' True (Some True)\<rparr>
     [tea ''b'' 5 None None, tea ''a'' 10 None (Some 3)]
     = [tea ''b'' 5 None None] \<and>
   subscribe_handler \<lparr>ev_action = Update, ev_record = pushed ''a'' True (Some False)\<rparr>
     [tea ''b'' 5 None None]
     = [transformRecord (pushed ''a'' True (Some False)), tea ''b'' 5 None None]"
  using update_event_visibility [of "pushed ''a'' True (Some True)"
          "[tea ''b'' 5 None None, tea ''a'' 10 None (Some 3)]"]
        update_event_visibility [of "pushed ''a'' True (Some False)" "[tea ''b'' 5 None None]"]
  by (simp add: in_stock_and_not_hidden_def pushed_def tea_def rendered_ids_def)

section \<open>Partial success of the finalize sequence\<close>

text \<open>The item loop of the direct path leaves the orders alone and only adds signals.\<close>

lemma create_items_direct_orders:
  "orders (fst (create_items_direct env oid cart acc)) = orders (fst acc)"
  by (induction env oid cart acc rule: create_items_direct.induct)
     (auto simp: store_item_def split: fetch_result.splits)

lemma create_items_direct_keeps:
  "set (snd acc) \<subseteq> set (snd (create_items_direct env oid cart acc))"
  by (induction env oid cart acc rule: create_items_direct.induct)
     (auto split: fetch_result.splits)

lemma create_items_direct_logs:
  "item \<in> set cart \<Longrightarrow> direct_item_fails env item \<Longrightarrow>
   ConsoleError (ItemPhase (id_p (product item))) \<in> set (snd (create_items_direct env oid cart acc))"
proof (induction env oid cart acc rule: create_items_direct.induct)
  case (1 env orderId acc)
  then show ?case by simp
next
  case (2 env orderId x rest b sigs)
  show ?case
  proof (cases "item = x")
    case True
    let ?acc = "(b, sigs @ [ConsoleError (ItemPhase (id_p (product x)))])"
    have "ConsoleError (ItemPhase (id_p (product x))) \<in> set (snd ?acc)" by simp
    then have "ConsoleError (ItemPhase (id_p (product x)))
                 \<in> set (snd (create_items_direct env orderId rest ?acc))"
      using create_items_direct_keeps[of ?acc env orderId rest] by blast
    with True "2.prems"(2) show ?thesis
      by (auto simp: direct_item_fails_def split: fetch_result.splits)
  next
    case False
    with "2.prems" have "item \<in> set rest" by simp
    with 2 show ?thesis
      by (auto split: fetch_result.splits)
  qed
qed

text \<open>So does its stock loop.\<close>

lemma stock_fallback_direct_orders:
  "orders (fst (stock_fallback_direct env item acc)) = orders (fst acc)"
  by (simp add: stock_fallback_direct_def write_stock_direct_def Let_def
      split: fetched.splits fetch_result.splits)

lemma stock_fallback_direct_keeps:
  "set (snd acc) \<subseteq> set (snd (stock_fallback_direct env item acc))"
  by (auto simp: stock_fallback_direct_def Let_def split: fetched.splits fetch_result.splits)

lemma stock_fallback_direct_logs:
  "ConsoleError (StockPhase (id_p (product item))) \<in> set (snd (stock_fallback_direct env item acc))"
  by (auto simp: stock_fallback_direct_def Let_def split: fetched.splits fetch_result.splits)

lemma update_stock_direct_orders:
  "orders (fst (update_stock_direct env cart acc)) = orders (fst acc)"
  by (induction env cart acc rule: update_stock_direct.induct)
     (auto simp: write_stock_direct_def stock_fallback_direct_orders split: option.splits)

lemma update_stock_direct_keeps:
  "set (snd acc) \<subseteq> set (snd (update_stock_direct env cart acc))"
proof (induction env cart acc rule: update_stock_direct.induct)
  case (1 env acc)
  then show ?case by simp
next
  case (2 env item rest b sigs)
  have "set sigs \<subseteq> set (snd (stock_fallback_direct env item (b, sigs)))"
    using stock_fallback_direct_keeps[of "(b, sigs)" env item] by simp
  with 2 show ?case
    by (simp split: option.splits) blast
qed

lemma update_stock_direct_logs:
  "item \<in> set cart \<Longrightarrow> direct_stock_refused env item \<Longrightarrow>
   ConsoleError (StockPhase (id_p (product item))) \<in> set (snd (update_stock_direct env cart acc))"
proof (induction env cart acc rule: update_stock_direct.induct)
  case (1 env acc)
  then show ?case by simp
next
  case (2 env x rest b sigs)
  show ?case
  proof (cases "item = x")
    case True
    have "ConsoleError (StockPhase (id_p (product x)))
            \<in> set (snd (update_stock_direct env rest (stock_fallback_direct env x (b, sigs))))"
      using stock_fallback_direct_logs[of x env "(b, sigs)"]
            update_stock_direct_keeps[of "stock_fallback_direct env x (b, sigs)" env rest]
      by blast
    with True "2.prems"(2) show ?thesis
      by (auto simp: direct_stock_refused_def sdk_getOne_def split: option.splits)
  next
    case False
    with "2.prems" have "item \<in> set rest" by simp
    with 2 show ?thesis
      by (auto split: option.splits)
  qed
qed

text \<open>The payment-success path.\<close>

lemma create_items_paid_orders:
  "orders (create_items_paid env user oid cart b) = orders b"
  by (induction env user oid cart b rule: create_items_paid.induct)
     (auto simp: store_item_def)

lemma update_stock_paid_item_orders:
  "orders (fst (update_stock_paid_item env user item acc)) = orders (fst acc)"
  by (simp add: update_stock_paid_item_def write_stock_paid_def Let_def
      split: option.splits fetched.splits fetch_result.splits)

lemma update_stock_paid_item_keeps:
  "set (snd acc) \<subseteq> set (snd (update_stock_paid_item env user item acc))"
  by (auto simp: update_stock_paid_item_def Let_def
      split: option.splits fetched.splits fetch_result.splits)

lemma update_stock_paid_item_logs:
  "paid_stock_refused env user item \<Longrightarrow>
   ConsoleError (StockPhase (id_p (product item))) \<in> set (snd (update_stock_paid_item env user item acc))"
  by (auto simp: update_stock_paid_item_def paid_stock_refused_def Let_def api_getOne_def sdk_getOne_def
      split: option.splits fetched.splits fetch_result.splits)

lemma update_stock_paid_orders:
  "orders (fst (update_stock_paid env user cart acc)) = orders (fst acc)"
  by (induction env user cart acc rule: update_stock_paid.induct)
     (simp_all add: update_stock_paid_item_orders)

lemma update_stock_paid_keeps:
  "set (snd acc) \<subseteq> set (snd (update_stock_paid env user cart acc))"
proof (induction env user cart acc rule: update_stock_paid.induct)
  case (1 env user acc)
  then show ?case by simp
next
  case (2 env user item rest acc)
  then show ?case
    using update_stock_paid_item_keeps[of acc env user item] by auto
qed

lemma update_stock_paid_logs:
  "item \<in> set cart \<Longrightarrow> paid_stock_refused env user item \<Longrightarrow>
   ConsoleError (StockPhase (id_p (product item))) \<in> set (snd (update_stock_paid env user cart acc))"
proof (induction env user cart acc rule: update_stock_paid.induct)
  case (1 env user acc)
  then show ?case by simp
next
  case (2 env user x rest acc)
  show ?case
  proof (cases "item = x")
    case True
    with "2.prems"(2) show ?thesis
      using update_stock_paid_item_logs[of env user x acc]
            update_stock_paid_keeps[of "update_stock_paid_item env user x acc" env user rest]
      by auto
  next
    case False
    with 2 show ?thesis by simp
  qed
qed

lemma create_order_direct_Some:
  "create_order_direct env od b = (Some b1, sigs) \<Longrightarrow> b1 = store_order env od b \<and> sigs = []"
  by (auto simp: create_order_direct_def split: if_splits fetch_result.splits)

lemma create_order_paid_Some:
  "create_order_paid env user od b = (Some b1, sigs) \<Longrightarrow> b1 = store_order env od b \<and> sigs = []"
  by (auto simp: create_order_paid_def split: if_splits option.splits fetch_result.splits)

lemma direct_created:
  assumes "create_order_direct env (direct_orderData env user info cart) b = (Some b1, sigs)"
  shows "handleOrderCreation env user info cart b =
           \<lparr>backend = fst (update_stock_direct env cart
                             (create_items_direct env (new_order_id env) cart (b1, sigs))),
            cart_after = [],
            signals = snd (update_stock_direct env cart
                             (create_items_direct env (new_order_id env) cart (b1, sigs)))
                      @ email_signals env,
            navigated = Some (new_order_id env), rethrown = False\<rparr>"
  using assms by (simp add: handleOrderCreation_def Let_def clearCart_def)

text \<open>
  Once the order is stored, nothing later touches the orders and nothing is thrown again;
  every failed line leaves a \<^verbatim>\<open>console.error\<close>, or on the payment-success path the error
  toast for a failed item.
\<close>

lemma order_persists_and_logs:
  "(\<forall>b1 sigs. create_order_direct env (direct_orderData env user info cart) b = (Some b1, sigs) \<longrightarrow>
      orders (backend (handleOrderCreation env user info cart b))
        = orders b @ [(new_order_id env, direct_orderData env user info cart)]
    \<and> \<not> rethrown (handleOrderCreation env user info cart b)
    \<and> (\<forall>item \<in> set cart. direct_item_fails env item \<longrightarrow>
          ConsoleError (ItemPhase (id_p (product item)))
            \<in> set (signals (handleOrderCreation env user info cart b)))
    \<and> (\<forall>item \<in> set cart. direct_stock_refused env item \<longrightarrow>
          ConsoleError (StockPhase (id_p (product item)))
            \<in> set (signals (handleOrderCreation env user info cart b)))) \<and>
   (\<forall>b1 sigs. create_order_paid env user (paid_orderData env user info cart) b = (Some b1, sigs) \<longrightarrow>
      orders (backend (handlePaymentSuccess env user info cart b))
        = orders b @ [(new_order_id env, paid_orderData env user info cart)]
    \<and> \<not> rethrown (handlePaymentSuccess env user info cart b)
    \<and> (\<not> list_all (item_request_ok env user) cart \<longrightarrow>
          ToastError \<in> set (signals (handlePaymentSuccess env user info cart b)))
    \<and> (list_all (item_request_ok env user) cart \<longrightarrow>
         (\<forall>item \<in> set cart. paid_stock_refused env user item \<longrightarrow>
            ConsoleError (StockPhase (id_p (product item)))
              \<in> set (signals (handlePaymentSuccess env user info cart b)))))"
proof (intro conjI allI impI)
  fix b1 sigs
  assume c: "create_order_direct env (direct_orderData env user info cart) b = (Some b1, sigs)"
  note out = direct_created[OF c]
  from c have b1: "b1 = store_order env (direct_orderData env user info cart) b"
    by (simp add: create_order_direct_Some)
  show "orders (backend (handleOrderCreation env user info cart b))
        = orders b @ [(new_order_id env, direct_orderData env user info cart)]"
    by (simp add: out update_stock_direct_orders create_items_direct_orders b1 store_order_def)
  show "\<not> rethrown (handleOrderCreation env user info cart b)"
    by (simp add: out)
  show "\<forall>item \<in> set cart. direct_item_fails env item \<longrightarrow>
          ConsoleError (ItemPhase (id_p (product item)))
            \<in> set (signals (handleOrderCreation env user info cart b))"
  proof (intro ballI impI)
    fix item assume "item \<in> set cart" "direct_item_fails env item"
    then have "ConsoleError (ItemPhase (id_p (product item)))
          \<in> set (snd (create_items_direct env (new_order_id env) cart (b1, sigs)))"
      by (rule create_items_direct_logs)
    then show "ConsoleError (ItemPhase (id_p (product item)))
            \<in> set (signals (handleOrderCreation env user info cart b))"
      using update_stock_direct_keeps[of "create_items_direct env (new_order_id env) cart (b1, sigs)" env cart]
      by (auto simp: out)
  qed
  show "\<forall>item \<in> set cart. direct_stock_refused env item \<longrightarrow>
          ConsoleError (StockPhase (id_p (product item)))
            \<in> set (signals (handleOrderCreation env user info cart b))"
    by (auto simp: out update_stock_direct_logs)
next
  fix b1 sigs
  assume c: "create_order_paid env user (paid_orderData env user info cart) b = (Some b1, sigs)"
  from c have b1: "b1 = store_order env (paid_orderData env user info cart) b" and s: "sigs = []"
    by (simp_all add: create_order_paid_Some)
  show "orders (backend (handlePaymentSuccess env user info cart b))
        = orders b @ [(new_order_id env, paid_orderData env user info cart)]"
    using c by (simp add: handlePaymentSuccess_def Let_def update_stock_paid_orders
        create_items_paid_orders b1 store_order_def)
  show "\<not> rethrown (handlePaymentSuccess env user info cart b)"
    using c by (simp add: handlePaymentSuccess_def Let_def)
  show "ToastError \<in> set (signals (handlePaymentSuccess env user info cart b))"
    if "\<not> list_all (item_request_ok env user) cart"
    using c that by (simp add: handlePaymentSuccess_def Let_def)
  show "\<forall>item \<in> set cart. paid_stock_refused env user item \<longrightarrow>
            ConsoleError (StockPhase (id_p (product item)))
              \<in> set (signals (handlePaymentSuccess env user info cart b))"
    if "list_all (item_request_ok env user) cart"
    using c that by (auto simp: handlePaymentSuccess_def Let_def update_stock_paid_logs)
qed


text \<open>The loops raise no toast.\<close>

lemma create_items_direct_only_logged:
  "only_logged (snd acc) \<Longrightarrow> only_logged (snd (create_items_direct env oid cart acc))"
  by (induction env oid cart acc rule: create_items_direct.induct)
     (auto simp: only_logged_def split: fetch_result.splits)

lemma stock_fallback_direct_only_logged:
  "only_logged (snd acc) \<Longrightarrow> only_logged (snd (stock_fallback_direct env item acc))"
  by (auto simp: stock_fallback_direct_def only_logged_def Let_def
      split: fetched.splits fetch_result.splits)

lemma update_stock_direct_only_logged:
  "only_logged (snd acc) \<Longrightarrow> only_logged (snd (update_stock_direct env cart acc))"
proof (induction env cart acc rule: update_stock_direct.induct)
  case (1 env acc)
  then show ?case by simp
next
  case (2 env item rest b sigs)
  from "2.prems" have "only_logged (snd (stock_fallback_direct env item (b, sigs)))"
    by (rule stock_fallback_direct_only_logged)
  with 2 show ?case by (simp split: option.splits)
qed

lemma update_stock_paid_item_only_logged:
  "only_logged (snd acc) \<Longrightarrow> only_logged (snd (update_stock_paid_item env user item acc))"
  by (auto simp: update_stock_paid_item_def only_logged_def Let_def
      split: option.splits fetched.splits fetch_result.splits)

lemma update_stock_paid_only_logged:
  "only_logged (snd acc) \<Longrightarrow> only_logged (snd (update_stock_paid env user cart acc))"
  by (induction env user cart acc rule: update_stock_paid.induct)
     (simp_all add: update_stock_paid_item_only_logged)

lemma email_signals_toasts:
  "ToastError \<notin> set (email_signals env) \<and> ToastSuccess \<in> set (email_signals env)"
  by (simp add: email_signals_def split: email_result.split)

lemma direct_shown_as_success:
  assumes "create_order_direct env (direct_orderData env user info cart) b = (Some b1, sigs)"
  shows "ToastError \<notin> set (signals (handleOrderCreation env user info cart b))
       \<and> ToastSuccess \<in> set (signals (handleOrderCreation env user info cart b))
       \<and> navigated (handleOrderCreation env user info cart b) = Some (new_order_id env)
       \<and> cart_after (handleOrderCreation env user info cart b) = []"
proof -
  from assms have "sigs = []" by (simp add: create_order_direct_Some)
  then have "only_logged (snd (b1, sigs))" by (simp add: only_logged_def)
  then have "only_logged (snd (update_stock_direct env cart
                             (create_items_direct env (new_order_id env) cart (b1, sigs))))"
    by (intro update_stock_direct_only_logged create_items_direct_only_logged)
  then show ?thesis
    using email_signals_toasts[of env]
    by (simp add: direct_created[OF assms] only_logged_def)
qed

lemma paid_shown_as_success:
  assumes "create_order_paid env user (paid_orderData env user info cart) b = (Some b1, sigs)"
    and "list_all (item_request_ok env user) cart"
  shows "ToastError \<notin> set (signals (handlePaymentSuccess env user info cart b))
       \<and> ToastSuccess \<in> set (signals (handlePaymentSuccess env user info cart b))
       \<and> navigated (handlePaymentSuccess env user info cart b) = Some (new_order_id env)
       \<and> cart_after (handlePaymentSuccess env user info cart b) = []"
proof -
  from assms(1) have "sigs = []" by (simp add: create_order_paid_Some)
  then have "only_logged (snd (create_items_paid env user (new_order_id env) cart b1, sigs))"
    by (simp add: only_logged_def)
  then have "only_logged (snd (update_stock_paid env user cart
                (create_items_paid env user (new_order_id env) cart b1, sigs)))"
    by (rule update_stock_paid_only_logged)
  then show ?thesis
    using assms by (simp add: handlePaymentSuccess_def Let_def only_logged_def clearCart_def)
qed

lemma paid_shown_as_error:
  assumes "create_order_paid env user (paid_orderData env user info cart) b = (Some b1, sigs)"
    and "\<not> list_all (item_request_ok env user) cart"
  shows "ToastError \<in> set (signals (handlePaymentSuccess env user info cart b))
       \<and> ToastSuccess \<notin> set (signals (handlePaymentSuccess env user info cart b))
       \<and> navigated (handlePaymentSuccess env user info cart b) = None
       \<and> cart_after (handlePaymentSuccess env user info cart b) = cart"
proof -
  from assms(1) have "sigs = []" by (simp add: create_order_paid_Some)
  with assms show ?thesis by (simp add: handlePaymentSuccess_def Let_def)
qed

text \<open>
  C4 as stated fails in its last part: a guest pays, the order and its item are stored, and
  the stock update is refused. \<^verbatim>\<open>handlePaymentSuccess\<close> logs the failure with
  \<^verbatim>\<open>console.error\<close>, raises no error toast, shows the success toast, clears the cart and
  navigates to the confirmation; the stock stays at 3.
\<close>

theorem stock_failure_shown_as_success:
  "paid_stock_refused patch_refused None
     \<lparr>product = tea ''a'' 10 None (Some 3), quantity = 1\<rparr> \<and>
   map fst (orders (backend (handlePaymentSuccess patch_refused None (filled_form ''Azerbaijan'')
                      [\<lparr>product = tea ''a'' 10 None (Some 3), quantity = 1\<rparr>] shop)))
     = [''order1''] \<and>
   map_option row_stock
     (products (backend (handlePaymentSuccess patch_refused None (filled_form ''Azerbaijan'')
                      [\<lparr>product = tea ''a'' 10 None (Some 3), quantity = 1\<rparr>] shop)) ''a'')
     = Some (Some 3) \<and>
   signals (handlePaymentSuccess patch_refused None (filled_form ''Azerbaijan'')
              [\<lparr>product = tea ''a'' 10 None (Some 3), quantity = 1\<rparr>] shop)
     = [ConsoleError (StockPhase ''a''), ToastSuccess] \<and>
   navigated (handlePaymentSuccess patch_refused None (filled_form ''Azerbaijan'')
                [\<lparr>product = tea ''a'' 10 None (Some 3), quantity = 1\<rparr>] shop)
     = Some ''order1'' \<and>
   cart_after (handlePaymentSuccess patch_refused None (filled_form ''Azerbaijan'')
                 [\<lparr>product = tea ''a'' 10 None (Some 3), quantity = 1\<rparr>] shop) = []"
  by code_simp

text \<open>
  C4, amended: in both finalize paths, once the order record is created, whatever the later
  order-item creations and stock updates do, the order is among the stored orders at the
  end (nothing deletes it or rolls it back) and no exception leaves the function. What the
  shopper sees differs. On the payment-success path a failed order-item creation raises the
  error toast, and no success toast; the cart is kept and the page stays. A failed stock
  update on either path, and a failed order-item creation on the direct path
  (\<^verbatim>\<open>handleOrderCreation\<close>, the demo-mode function that no caller invokes), is only logged
  with \<^verbatim>\<open>console.error\<close>: no error toast is raised, the success toast is shown, the cart is
  cleared and the page navigates to the confirmation.
\<close>

theorem order_survives_later_failures:
  "(\<forall>b1 sigs. create_order_direct env (direct_orderData env user info cart) b = (Some b1, sigs) \<longrightarrow>
      orders (backend (handleOrderCreation env user info cart b))
        = orders b @ [(new_order_id env, direct_orderData env user info cart)]
    \<and> \<not> rethrown (handleOrderCreation env user info cart b)
    \<and> (\<forall>item \<in> set cart. direct_item_fails env item \<longrightarrow>
          ConsoleError (ItemPhase (id_p (product item)))
            \<in> set (signals (handleOrderCreation env user info cart b)))
    \<and> (\<forall>item \<in> set cart. direct_stock_refused env item \<longrightarrow>
          ConsoleError (StockPhase (id_p (product item)))
            \<in> set (signals (handleOrderCreation env user info cart b)))
    \<and> ToastError \<notin> set (signals (handleOrderCreation env user info cart b))
    \<and> ToastSuccess \<in> set (signals (handleOrderCreation env user info cart b))
    \<and> navigated (handleOrderCreation env user info cart b) = Some (new_order_id env)
    \<and> cart_after (handleOrderCreation env user info cart b) = []) \<and>
   (\<forall>b1 sigs. create_order_paid env user (paid_orderData env user info cart) b = (Some b1, sigs) \<longrightarrow>
      orders (backend (handlePaymentSuccess env user info cart b))
        = orders b @ [(new_order_id env, paid_orderData env user info cart)]
    \<and> \<not> rethrown (handlePaymentSuccess env user info cart b)
    \<and> (\<not> list_all (item_request_ok env user) cart \<longrightarrow>
          ToastError \<in> set (signals (handlePaymentSuccess env user info cart b))
        \<and> ToastSuccess \<notin> set (signals (handlePaymentSuccess env user info cart b))
        \<and> navigated (handlePaymentSuccess env user info cart b) = None
        \<and> cart_after (handlePaymentSuccess env user info cart b) = cart)
    \<and> (list_all (item_request_ok env user) cart \<longrightarrow>
         (\<forall>item \<in> set cart. paid_stock_refused env user item \<longrightarrow>
            ConsoleError (StockPhase (id_p (product item)))
              \<in> set (signals (handlePaymentSuccess env user info cart b)))
        \<and> ToastError \<notin> set (signals (handlePaymentSuccess env user info cart b))
        \<and> ToastSuccess \<in> set (signals (handlePaymentSuccess env user info cart b))
        \<and> navigated (handlePaymentSuccess env user info cart b) = Some (new_order_id env)
        \<and> cart_after (handlePaymentSuccess env user info cart b) = []))"
proof (intro conjI allI impI)
  fix b1 sigs
  assume c: "create_order_direct env (direct_orderData env user info cart) b = (Some b1, sigs)"
  note old = order_persists_and_logs [of env user info cart b]
  note new = direct_shown_as_success [OF c]
  from old c show "orders (backend (handleOrderCreation env user info cart b))
        = orders b @ [(new_order_id env, direct_orderData env user info cart)]" by blast
  from old c show "\<not> rethrown (handleOrderCreation env user info cart b)" by blast
  from old c show "\<forall>item \<in> set cart. direct_item_fails env item \<longrightarrow>
          ConsoleError (ItemPhase (id_p (product item)))
            \<in> set (signals (handleOrderCreation env user info cart b))" by blast
  from old c show "\<forall>item \<in> set cart. direct_stock_refused env item \<longrightarrow>
          ConsoleError (StockPhase (id_p (product item)))
            \<in> set (signals (handleOrderCreation env user info cart b))" by blast
  from new show "ToastError \<notin> set (signals (handleOrderCreation env user info cart b))" by blast
  from new show "ToastSuccess \<in> set (signals (handleOrderCreation env user info cart b))" by blast
  from new show "navigated (handleOrderCreation env user info cart b) = Some (new_order_id env)"
    by blast
  from new show "cart_after (handleOrderCreation env user info cart b) = []" by blast
next
  fix b1 sigs
  assume c: "create_order_paid env user (paid_orderData env user info cart) b = (Some b1, sigs)"
  note old = order_persists_and_logs [of env user info cart b]
  from old c show "orders (backend (handlePaymentSuccess env user info cart b))
        = orders b @ [(new_order_id env, paid_orderData env user info cart)]" by blast
  from old c show "\<not> rethrown (handlePaymentSuccess env user info cart b)" by blast
  {
    assume n: "\<not> list_all (item_request_ok env user) cart"
    note new = paid_shown_as_error [OF c n]
    from new show "ToastError \<in> set (signals (handlePaymentSuccess env user info cart b))" by blast
    from new show "ToastSuccess \<notin> set (signals (handlePaymentSuccess env user info cart b))" by blast
    from new show "navigated (handlePaymentSuccess env user info cart b) = None" by blast
    from new show "cart_after (handlePaymentSuccess env user info cart b) = cart" by blast
  }
  {
    assume a: "list_all (item_request_ok env user) cart"
    note new = paid_shown_as_success [OF c a]
    from old c a show "\<forall>item \<in> set cart. paid_stock_refused env user item \<longrightarrow>
            ConsoleError (StockPhase (id_p (product item)))
              \<in> set (signals (handlePaymentSuccess env user info cart b))" by blast
    from new show "ToastError \<notin> set (signals (handlePaymentSuccess env user info cart b))" by blast
    from new show "ToastSuccess \<in> set (signals (handlePaymentSuccess env user info cart b))" by blast
    from new show "navigated (handlePaymentSuccess env user info cart b) = Some (new_order_id env)"
      by blast
    from new show "cart_after (handlePaymentSuccess env user info cart b) = []" by blast
  }
qed

text \<open>
  A guest checkout whose order is stored while every order-item request is refused: the
  order stays in the store with no items, on both paths.
\<close>

theorem order_survives_later_failures_witness:
  "orders (backend (handleOrderCreation items_refused None (filled_form ''Azerbaijan'')
                      [\<lparr>product = tea ''a'' 10 None (Some 3), quantity = 1\<rparr>] shop))
     = [(''order1'', direct_orderData items_refused None (filled_form ''Azerbaijan'')
                       [\<lparr>product = tea ''a'' 10 None (Some 3), quantity = 1\<rparr>])] \<and>
   order_items (backend (handleOrderCreation items_refused None (filled_form ''Azerbaijan'')
                      [\<lparr>product = tea ''a'' 10 None (Some 3), quantity = 1\<rparr>] shop)) = [] \<and>
   ConsoleError (ItemPhase ''a'')
     \<in> set (signals (handleOrderCreation items_refused None (filled_form ''Azerbaijan'')
                      [\<lparr>product = tea ''a'' 10 None (Some 3), quantity = 1\<rparr>] shop)) \<and>
   orders (backend (handlePaymentSuccess items_refused None (filled_form ''Azerbaijan'')
                      [\<lparr>product = tea ''a'' 10 None (Some 3), quantity = 1\<rparr>] shop))
     = [(''order1'', paid_orderData items_refused None (filled_form ''Azerbaijan'')
                       [\<lparr>product = tea ''a'' 10 None (Some 3), quantity = 1\<rparr>])] \<and>
   order_items (backend (handlePaymentSuccess items_refused None (filled_form ''Azerbaijan'')
                      [\<lparr>product = tea ''a'' 10 None (Some 3), quantity = 1\<rparr>] shop)) = [] \<and>
   ToastError
     \<in> set (signals (handlePaymentSuccess items_refused None (filled_form ''Azerbaijan'')
                      [\<lparr>product = tea ''a'' 10 None (Some 3), quantity = 1\<rparr>] shop))"
proof -
  let ?cart = "[\<lparr>product = tea ''a'' 10 None (Some 3), quantity = 1\<rparr>]"
  let ?info = "filled_form ''Azerbaijan''"
  have d: "create_order_direct items_refused (direct_orderData items_refused None ?info ?cart) shop
             = (Some (store_order items_refused
                        (direct_orderData items_refused None ?info ?cart) shop), [])"
    by (simp add: create_order_direct_def items_refused_def all_fine_def)
  have p: "create_order_paid items_refused None (paid_orderData items_refused None ?info ?cart) shop
             = (Some (store_order items_refused
                        (paid_orderData items_refused None ?info ?cart) shop), [])"
    by (simp add: create_order_paid_def items_refused_def all_fine_def)
  have f: "direct_item_fails items_refused \<lparr>product = tea ''a'' 10 None (Some 3), quantity = 1\<rparr>"
    by (simp add: direct_item_fails_def items_refused_def all_fine_def)
  have n: "\<not> list_all (item_request_ok items_refused None) ?cart"
    by (simp add: item_request_ok_def items_refused_def all_fine_def tea_def)
  have i1: "order_items (backend (handleOrderCreation items_refused None ?info ?cart shop)) = []"
    by code_simp
  have i2: "order_items (backend (handlePaymentSuccess items_refused None ?info ?cart shop)) = []"
    by code_simp
  from order_survives_later_failures [of items_refused None ?info ?cart shop] d p f n i1 i2
  show ?thesis
    by (simp add: shop_def items_refused_def all_fine_def tea_def)
qed

section \<open>Shipping fee and grand total\<close>

lemma build_orderData_total:
  "total_price (build_orderData env user info t st) = t"
  by (simp add: build_orderData_def split_def Let_def)

text \<open>
  C10: for every cart, with subtotal t the value of \<^verbatim>\<open>getTotalPrice()\<close>, the shipping fee
  shown at checkout is 0 when \<open>t > 50\<close> and 5 otherwise, and the grand total is t plus that
  fee; the amount of the payment intent requested by \<^verbatim>\<open>proceedToPayment\<close> and the
  \<^verbatim>\<open>total_price\<close> of the order either finalize path creates are that same grand total.
  A subtotal of 40 gives fee 5 and total 45, a subtotal of 60 gives fee 0 and total 60.
\<close>

theorem shipping_fee_and_grand_total:
  "summary_shipping cart = (if getTotalPrice cart > 50 then 0 else 5) \<and>
   summary_total cart = getTotalPrice cart + (if getTotalPrice cart > 50 then 0 else 5) \<and>
   intents_requested (proceedToPayment api cart st)
     = intents_requested st @ [summary_total cart] \<and>
   total_price (direct_orderData env user info cart) = summary_total cart \<and>
   total_price (paid_orderData env user info cart) = summary_total cart \<and>
   (getTotalPrice cart = 40 \<longrightarrow> summary_shipping cart = 5 \<and> summary_total cart = 45) \<and>
   (getTotalPrice cart = 60 \<longrightarrow> summary_shipping cart = 0 \<and> summary_total cart = 60)"
proof -
  have intent: "intents_requested (proceedToPayment api cart st)
                  = intents_requested st @ [summary_total cart]"
    by (simp add: proceedToPayment_def Let_def summary_total_def summary_shipping_def
        summary_subtotal_def split: option.split)
  have direct: "total_price (direct_orderData env user info cart) = summary_total cart"
    by (simp add: direct_orderData_def Let_def build_orderData_total summary_total_def
        summary_shipping_def summary_subtotal_def)
  have paid: "total_price (paid_orderData env user info cart) = summary_total cart"
    by (simp add: paid_orderData_def Let_def build_orderData_total summary_total_def
        summary_shipping_def summary_subtotal_def)
  from intent direct paid show ?thesis
    by (simp add: summary_total_def summary_shipping_def summary_subtotal_def)
qed

theorem shipping_fee_and_grand_total_witness:
  "getTotalPrice [\<lparr>product = tea ''a'' 40 None None, quantity = 1\<rparr>] = 40 \<and>
   summary_shipping [\<lparr>product = tea ''a'' 40 None None, quantity = 1\<rparr>] = 5 \<and>
   summary_total [\<lparr>product = tea ''a'' 40 None None, quantity = 1\<rparr>] = 45 \<and>
   getTotalPrice [\<lparr>product = tea ''a'' 30 None None, quantity = 2\<rparr>] = 60 \<and>
   summary_shipping [\<lparr>product = tea ''a'' 30 None None, quantity = 2\<rparr>] = 0 \<and>
   summary_total [\<lparr>product = tea ''a'' 30 None None, quantity = 2\<rparr>] = 60"
proof -
  have t40: "getTotalPrice [\<lparr>product = tea ''a'' 40 None None, quantity = 1\<rparr>] = 40"
    by (simp add: getTotalPrice_def effectivePrice_def tea_def)
  have t60: "getTotalPrice [\<lparr>product = tea ''a'' 30 None None, quantity = 2\<rparr>] = 60"
    by (simp add: getTotalPrice_def effectivePrice_def tea_def)
  from t40 t60
    shipping_fee_and_grand_total [of "[\<lparr>product = tea ''a'' 40 None None, quantity = 1\<rparr>]"]
    shipping_fee_and_grand_total [of "[\<lparr>product = tea ''a'' 30 None None, quantity = 2\<rparr>]"]
  show ?thesis by simp
qed

section \<open>Unit price of the order items\<close>


text \<open>
  The payment-success path writes the effective price of the line on every order item it
  creates.
\<close>

lemma paid_items_effective_price:
  "oi_price (paid_orderItemData orderId item) = spec_unit_price item"
  by (simp add: paid_orderItemData_def effectivePrice_spec)

text \<open>
  The direct path agrees with it exactly when the sale price, if set and positive, is below
  the regular price.
\<close>

lemma direct_item_price_effective:
  "direct_item_price item = spec_unit_price item \<longleftrightarrow>
     (case sale_price (product item) of
        None \<Rightarrow> True
      | Some sp \<Rightarrow> sp \<le> 0 \<or> sp \<le> price (product item))"
  by (auto simp: direct_item_price_def spec_unit_price_def split: option.splits)






section \<open>Validation of the shipping form\<close>

lemma validateForm_iff:
  "fst (validateForm info) \<longleftrightarrow>
     firstName info \<noteq> [] \<and> lastName info \<noteq> [] \<and> email info \<noteq> [] \<and> phone info \<noteq> []
     \<and> address info \<noteq> [] \<and> city info \<noteq> [] \<and> postalCode info \<noteq> []"
  by (simp add: validateForm_def required_def)

text \<open>
  A submit requests a payment intent exactly when \<^verbatim>\<open>validateForm\<close> accepts the form, and
  leaves the shipping phase only then, and only if the payment API answers.
\<close>

lemma handleShippingSubmit_gate:
  "intents_requested (handleShippingSubmit api cart st)
     = (if fst (validateForm (shippingInfo st))
        then intents_requested st @ [summary_total cart] else intents_requested st) \<and>
   (currentStep st = shipping \<and> \<not> fst (validateForm (shippingInfo st)) \<longrightarrow>
      currentStep (handleShippingSubmit api cart st) = shipping
    \<and> ToastError \<in> set (messages (handleShippingSubmit api cart st)))"
proof (cases "first_missing required (shippingInfo st)")
  case None
  then have "validateForm (shippingInfo st) = (True, [])"
    by (simp add: validateForm_def)
  then show ?thesis
    by (simp add: handleShippingSubmit_def proceedToPayment_def Let_def summary_total_def
        summary_shipping_def summary_subtotal_def split: option.split)
next
  case (Some field)
  then have "validateForm (shippingInfo st) = (False, [ToastError])"
    by (simp add: validateForm_def)
  then show ?thesis
    by (simp add: handleShippingSubmit_def Let_def)
qed

text \<open>
  The list of \<^verbatim>\<open>validateForm\<close> leaves out the country: called on its own with an empty
  country the handler goes on to the payment phase, where an empty city stops it. On the
  page the handler runs only after the browser has checked the form, whose Country input
  is required like the other seven.
\<close>

lemma handler_alone_accepts_empty_country:
  "country (filled_form []) = [] \<and>
   validateForm (filled_form []) = (True, []) \<and>
   intents_requested
     (handleShippingSubmit (\<lambda>amount. Some ''pi_secret'')
        [\<lparr>product = tea ''a'' 10 None (Some 3), quantity = 1\<rparr>] (fresh_page (filled_form [])))
     = [15] \<and>
   currentStep
     (handleShippingSubmit (\<lambda>amount. Some ''pi_secret'')
        [\<lparr>product = tea ''a'' 10 None (Some 3), quantity = 1\<rparr>] (fresh_page (filled_form [])))
     = payment \<and>
   intents_requested
     (handleShippingSubmit (\<lambda>amount. Some ''pi_secret'')
        [\<lparr>product = tea ''a'' 10 None (Some 3), quantity = 1\<rparr>]
        (fresh_page ((filled_form ''Azerbaijan'')\<lparr>city := []\<rparr>)))
     = []"
  by code_simp






end
